theory Spec2Isabelle
  imports Main "HOL-Library.AList"
begin

text \<open>
  The navigation and action state machine of kv-explorer (\<^verbatim>\<open>kv-explorer.ts\<close>): the
  state variables of \<^verbatim>\<open>main\<close> as one record, each handler and helper as a function
  on it, the secret store service as a value inside the state, and an awaited call
  that rejects as a result of the handler.
\<close>

section \<open>Strings as the handlers of kv-explorer use them\<close>

text \<open>
  The source compares names with \<^verbatim>\<open>toLowerCase\<close>, \<^verbatim>\<open>includes\<close> and \<^verbatim>\<open>trim\<close>
  (which removes white space at both ends; the ASCII white space here).
  Strings are byte lists here; vault and secret names of the service are ASCII
  (letters, digits, dashes), so lower-casing is modelled on the ASCII letters (codes
  65 to 90 become the letter 32 above, which is setting bit 5) and every other byte
  is left as it is.
\<close>

definition lower_char :: "char \<Rightarrow> char" where
  "lower_char c =
     (let n = (of_char c :: nat) in
      if 65 \<le> n \<and> n \<le> 90
      then (case c of Char b0 b1 b2 b3 b4 b5 b6 b7 \<Rightarrow> Char b0 b1 b2 b3 b4 True b6 b7)
      else c)"

definition toLowerCase :: "string \<Rightarrow> string" where
  "toLowerCase s = map lower_char s"

fun startsWith :: "string \<Rightarrow> string \<Rightarrow> bool" where
  "startsWith s [] = True"
| "startsWith [] (c # cs) = False"
| "startsWith (d # ds) (c # cs) = (d = c \<and> startsWith ds cs)"

text \<open>\<^verbatim>\<open>hay.includes(needle)\<close>: the needle occurs as a contiguous run of the hay.\<close>

fun str_includes :: "string \<Rightarrow> string \<Rightarrow> bool" where
  "str_includes [] needle = (needle = [])"
| "str_includes (h # hs) needle = (startsWith (h # hs) needle \<or> str_includes hs needle)"

definition isSpace :: "char \<Rightarrow> bool" where
  "isSpace c = (c = CHR '' '' \<or> c = CHR 0x09 \<or> c = CHR 0x0A \<or> c = CHR 0x0B
                \<or> c = CHR 0x0C \<or> c = CHR 0x0D)"

definition trim :: "string \<Rightarrow> string" where
  "trim s = rev (dropWhile isSpace (rev (dropWhile isSpace s)))"

section \<open>Data model\<close>

record Vault =
  vault_name :: string
  vaultUri :: string
  vault_id :: string
  location :: "string option"

text \<open>
  \<^verbatim>\<open>SecretProperties\<close> of the service client: the name, and the metadata the
  detail pane prints.
\<close>

record SecretProperties =
  secret_name :: string
  contentType :: "string option"
  enabled :: "bool option"

datatype ViewState = selectVault | listSecrets | moveSelectTarget

datatype FocusTarget = focus_list | focus_filter | focus_command

datatype ActionMode =
  none | editValue | rename | moveTarget | moveNewName | createName | createValue

datatype Failure = ServiceError | TypeError

text \<open>An awaited call either resolves with a value or rejects (throws).\<close>

datatype 'a Promise = Resolved 'a | Rejected Failure

section \<open>The secret store service\<close>

text \<open>
  Modelled from the spec: the service client (\<^verbatim>\<open>SecretClient\<close> of the Azure SDK) is
  an external collaborator, given by its interface only:
  \<^verbatim>\<open>listSecretMetadata\<close>, \<^verbatim>\<open>getSecretValue\<close>, \<^verbatim>\<open>setSecretValue\<close>, \<^verbatim>\<open>deleteSecret\<close>,
  each of which may fail. A vault is addressed by its URI and holds named values in
  listing order; \<open>denied\<close> says which calls the service rejects; \<open>calls\<close> is the
  log of every call issued, in order.
\<close>

datatype RemoteCall =
    ListCall string
  | GetCall string string
  | SetCall string string string
  | DeleteCall string string

record Remote =
  contents :: "string \<Rightarrow> (string \<times> string) list"
  denied :: "RemoteCall \<Rightarrow> bool"
  calls :: "RemoteCall list"

definition record_call :: "RemoteCall \<Rightarrow> Remote \<Rightarrow> Remote" where
  "record_call c r = r\<lparr>calls := calls r @ [c]\<rparr>"

definition listPropertiesOfSecrets :: "string \<Rightarrow> Remote \<Rightarrow> SecretProperties list Promise \<times> Remote" where
  "listPropertiesOfSecrets uri r =
     (let r' = record_call (ListCall uri) r in
      if denied r (ListCall uri) then (Rejected ServiceError, r')
      else (Resolved (map (\<lambda>(n, v). \<lparr>secret_name = n, contentType = None, enabled = None\<rparr>)
                         (contents r uri)), r'))"

definition getSecret :: "string \<Rightarrow> string \<Rightarrow> Remote \<Rightarrow> string Promise \<times> Remote" where
  "getSecret uri n r =
     (let r' = record_call (GetCall uri n) r in
      if denied r (GetCall uri n) then (Rejected ServiceError, r')
      else (case map_of (contents r uri) n of
              None \<Rightarrow> (Rejected ServiceError, r')
            | Some v \<Rightarrow> (Resolved v, r')))"

definition setSecret :: "string \<Rightarrow> string \<Rightarrow> string \<Rightarrow> Remote \<Rightarrow> unit Promise \<times> Remote" where
  "setSecret uri n v r =
     (let r' = record_call (SetCall uri n v) r in
      if denied r (SetCall uri n v) then (Rejected ServiceError, r')
      else (Resolved (), r'\<lparr>contents := (contents r)(uri := AList.update n v (contents r uri))\<rparr>))"

definition beginDeleteSecret :: "string \<Rightarrow> string \<Rightarrow> Remote \<Rightarrow> unit Promise \<times> Remote" where
  "beginDeleteSecret uri n r =
     (let r' = record_call (DeleteCall uri n) r in
      if denied r (DeleteCall uri n) then (Rejected ServiceError, r')
      else (case map_of (contents r uri) n of
              None \<Rightarrow> (Rejected ServiceError, r')
            | Some v \<Rightarrow> (Resolved (), r'\<lparr>contents := (contents r)(uri := AList.delete n (contents r uri))\<rparr>)))"

fun isDelete :: "RemoteCall \<Rightarrow> bool" where
  "isDelete (DeleteCall uri n) = True"
| "isDelete c = False"

fun isSet :: "RemoteCall \<Rightarrow> bool" where
  "isSet (SetCall uri n v) = True"
| "isSet c = False"

section \<open>Application state\<close>

text \<open>
  Modelled from the spec: the widgets of the render collaborator (the vendored widget
  library is not among the sources). The spec gives the list widget its options and a
  selection index as separate properties, the text input a value and visible/focused
  flags, and the text block its text. \<^verbatim>\<open>setSelectedIndex\<close> assigns an index that is
  in range; \<^verbatim>\<open>setValue\<close>, \<^verbatim>\<open>setText\<close>, \<^verbatim>\<open>focus\<close> and \<^verbatim>\<open>blur\<close> assign the property.
  \<^verbatim>\<open>setOptions\<close> replaces the options; what it makes of the selection index is not
  said anywhere, so it is a parameter of the widget, \<open>list_reindex\<close>, applied to the
  old index and the number of new options. The sample sessions use \<open>clampIndex\<close>, a
  widget that keeps the index and clamps it to the last option. Layout and redraw
  calls change nothing the handlers read and are left out. The option's \<^verbatim>\<open>value\<close> is
  the vault or secret it was made from.
\<close>

datatype ListItem = VaultItem Vault | SecretItem SecretProperties

text \<open>
  What the detail pane shows: a plain message, the full detail of a secret as
  \<^verbatim>\<open>loadAndShowSecret\<close> formats it from the properties and the cached value
  (\<open>None\<close> is \<^verbatim>\<open>null\<close>), or the metadata preview of the selection handler.
\<close>

datatype DetailsText =
    Plain string
  | SecretDetails SecretProperties "string option"
  | SecretPreview SecretProperties

record App =
  state :: ViewState
  focus :: FocusTarget
  allVaults :: "Vault list"
  filteredVaults :: "Vault list"
  secretClient :: "string option"
  currentVault :: "Vault option"
  secretCache :: "string \<rightharpoonup> string option"
  allSecrets :: "SecretProperties list"
  filteredSecrets :: "SecretProperties list"
  atSecretDetail :: bool
  actionMode :: ActionMode
  actionSecret :: "SecretProperties option"
  moveTargetVault :: "Vault option"
  moveSourceSecret :: "SecretProperties option"
  createNewSecretName :: "string option"
  list_options :: "ListItem list"
  list_selectedIndex :: nat
  list_reindex :: "nat \<Rightarrow> nat \<Rightarrow> nat"
  list_focused :: bool
  filter_value :: string
  filter_focused :: bool
  commandBar_visible :: bool
  commandBar_value :: string
  commandBar_title :: string
  commandBar_focused :: bool
  details_text :: DetailsText
  leftBox_title :: string
  rightBox_title :: string
  remote :: Remote
  pbcopy_available :: bool
  clipboard :: string
  exitCode :: "int option"

text \<open>
  \<open>secretClient\<close> holds the URI the client was constructed for. \<open>secretCache\<close> is the
  \<^verbatim>\<open>Map<string, string | null>\<close>: \<open>None\<close> is a missing key, \<open>Some None\<close> a cached
  \<^verbatim>\<open>null\<close>. \<open>exitCode\<close> is set once \<^verbatim>\<open>quitClean\<close> has scheduled \<^verbatim>\<open>process.exit\<close>.
\<close>

definition bullet :: string where
  "bullet = [CHR 0xE2, CHR 0x80, CHR 0xA2]"

definition arrow :: string where
  "arrow = [CHR 0xE2, CHR 0x86, CHR 0x92]"

section \<open>Widget and focus helpers\<close>

definition clampIndex :: "nat \<Rightarrow> nat \<Rightarrow> nat" where
  "clampIndex i n = min i (n - 1)"

definition list_setOptions :: "ListItem list \<Rightarrow> App \<Rightarrow> App" where
  "list_setOptions opts st =
     st\<lparr>list_options := opts,
        list_selectedIndex := list_reindex st (list_selectedIndex st) (length opts)\<rparr>"

definition list_setSelectedIndex :: "nat \<Rightarrow> App \<Rightarrow> App" where
  "list_setSelectedIndex i st =
     (if i < length (list_options st) then st\<lparr>list_selectedIndex := i\<rparr> else st)"

definition list_getSelectedOption :: "App \<Rightarrow> ListItem option" where
  "list_getSelectedOption st =
     (if list_selectedIndex st < length (list_options st)
      then Some (list_options st ! list_selectedIndex st) else None)"

text \<open>
  The handlers read \<^verbatim>\<open>selected.value\<close> untyped. A vault option read as a secret has
  only its \<^verbatim>\<open>name\<close>; a secret option has no \<^verbatim>\<open>vaultUri\<close> to be read as a vault.
\<close>

fun as_secret :: "ListItem \<Rightarrow> SecretProperties" where
  "as_secret (SecretItem s) = s"
| "as_secret (VaultItem v) = \<lparr>secret_name = vault_name v, contentType = None, enabled = None\<rparr>"

fun as_vault :: "ListItem \<Rightarrow> Vault option" where
  "as_vault (VaultItem v) = Some v"
| "as_vault (SecretItem s) = None"

definition setLeftTitle :: "string \<Rightarrow> App \<Rightarrow> App" where
  "setLeftTitle title st = st\<lparr>leftBox_title := title\<rparr>"

definition setListOptionsFromVaults :: "Vault list \<Rightarrow> App \<Rightarrow> App" where
  "setListOptionsFromVaults items st = list_setOptions (map VaultItem items) st"

definition setListOptionsFromSecrets :: "SecretProperties list \<Rightarrow> App \<Rightarrow> App" where
  "setListOptionsFromSecrets items st = list_setOptions (map SecretItem items) st"

definition focusFilter :: "App \<Rightarrow> App" where
  "focusFilter st =
     st\<lparr>focus := focus_filter, filter_focused := True, list_focused := False,
        commandBar_focused := False\<rparr>"

definition focusList :: "App \<Rightarrow> App" where
  "focusList st =
     st\<lparr>focus := focus_list, list_focused := True, filter_focused := False,
        commandBar_focused := False\<rparr>"

definition openCommandBar :: "App \<Rightarrow> App" where
  "openCommandBar st =
     st\<lparr>focus := focus_command, commandBar_title := ''Command'', commandBar_value := [],
        commandBar_visible := True, commandBar_focused := True\<rparr>"

definition closeCommandBar :: "App \<Rightarrow> App" where
  "closeCommandBar st =
     (let st1 = st\<lparr>commandBar_visible := False, commandBar_focused := False\<rparr> in
      if state st1 = selectVault \<or> state st1 = listSecrets
      then (if focus st1 = focus_filter then focusFilter st1 else focusList st1)
      else st1)"

text \<open>
  \<^verbatim>\<open>quitClean(code)\<close> stops the renderer and schedules \<^verbatim>\<open>process.exit(code)\<close>; the
  first scheduled exit is the one the process takes.
\<close>

definition quitClean :: "int \<Rightarrow> App \<Rightarrow> App" where
  "quitClean code st =
     st\<lparr>exitCode := (case exitCode st of None \<Rightarrow> Some code | Some c \<Rightarrow> Some c)\<rparr>"

section \<open>Loading and the value cache\<close>

definition selectVaultAndLoadSecrets :: "Vault option \<Rightarrow> App \<Rightarrow> unit Promise \<times> App" where
  "selectVaultAndLoadSecrets vault st =
     (case vault of
        None \<Rightarrow> (Rejected TypeError, st\<lparr>currentVault := None\<rparr>)
      | Some v \<Rightarrow>
          (let st1 = setLeftTitle (''Secrets '' @ bullet @ '' '' @ vault_name v)
                       (st\<lparr>currentVault := Some v\<rparr>);
               st2 = focusList (st1\<lparr>filter_value := []\<rparr>);
               st3 = st2\<lparr>state := listSecrets, details_text := Plain ''Loading secrets...'',
                         secretClient := Some (vaultUri v)\<rparr>
           in case listPropertiesOfSecrets (vaultUri v) (remote st3) of
                (Rejected e, r) \<Rightarrow> (Rejected e, st3\<lparr>remote := r\<rparr>)
              | (Resolved secrets, r) \<Rightarrow>
                  (let st4 = st3\<lparr>remote := r, allSecrets := secrets, filteredSecrets := secrets\<rparr>;
                       st5 = list_setSelectedIndex 0 (setListOptionsFromSecrets secrets st4)
                   in (Resolved (),
                       st5\<lparr>details_text := Plain ''Select a secret to view details. Press Enter on a secret to load its value.'',
                           atSecretDetail := False\<rparr>))))"

text \<open>
  The get-or-fetch step that \<^verbatim>\<open>loadAndShowSecret\<close> and \<^verbatim>\<open>getSecretValue\<close> share: a
  name that is not a key of the cache is fetched once, and \<^verbatim>\<open>null\<close> is stored when
  the fetch throws.
\<close>

definition fetchIntoCache :: "string \<Rightarrow> string \<Rightarrow> App \<Rightarrow> App" where
  "fetchIntoCache uri n st =
     (case getSecret uri n (remote st) of
        (Resolved v, r) \<Rightarrow> st\<lparr>remote := r, secretCache := (secretCache st)(n \<mapsto> Some v)\<rparr>
      | (Rejected e, r) \<Rightarrow> st\<lparr>remote := r, secretCache := (secretCache st)(n \<mapsto> None)\<rparr>)"

definition loadAndShowSecret :: "SecretProperties \<Rightarrow> App \<Rightarrow> App" where
  "loadAndShowSecret sp st =
     (case secretClient st of
        None \<Rightarrow> st
      | Some uri \<Rightarrow>
          (let st1 = (if secretCache st (secret_name sp) = None
                      then fetchIntoCache uri (secret_name sp)
                             (st\<lparr>details_text := Plain ''Fetching secret value...''\<rparr>)
                      else st);
               v = (case secretCache st1 (secret_name sp) of None \<Rightarrow> None | Some x \<Rightarrow> x)
           in st1\<lparr>details_text := SecretDetails sp v,
                  rightBox_title := ''Details '' @ bullet @ '' '' @ secret_name sp,
                  atSecretDetail := True\<rparr>))"

definition getSecretValue :: "SecretProperties \<Rightarrow> App \<Rightarrow> string option \<times> App" where
  "getSecretValue sp st =
     (case secretClient st of
        None \<Rightarrow> (None, st)
      | Some uri \<Rightarrow>
          (let st1 = (if secretCache st (secret_name sp) = None
                      then fetchIntoCache uri (secret_name sp) st else st)
           in (case secretCache st1 (secret_name sp) of None \<Rightarrow> None | Some x \<Rightarrow> x, st1)))"

definition setSecretValue :: "string \<Rightarrow> string \<Rightarrow> App \<Rightarrow> unit Promise \<times> App" where
  "setSecretValue n v st =
     (case secretClient st of
        None \<Rightarrow> (Resolved (), st)
      | Some uri \<Rightarrow>
          (case setSecret uri n v (remote st) of
             (Rejected e, r) \<Rightarrow> (Rejected e, st\<lparr>remote := r\<rparr>)
           | (Resolved u, r) \<Rightarrow>
               (Resolved (), st\<lparr>remote := r, secretCache := (secretCache st)(n \<mapsto> Some v)\<rparr>)))"

section \<open>Back navigation\<close>

definition goBackOneLayer :: "App \<Rightarrow> App" where
  "goBackOneLayer st =
     (if actionMode st = moveNewName then
        focusList (setListOptionsFromVaults (filteredVaults st)
          (setLeftTitle ''Target Vault''
            (st\<lparr>actionMode := moveTarget, commandBar_visible := False,
                state := moveSelectTarget\<rparr>)))
      else if atSecretDetail st then
        st\<lparr>atSecretDetail := False,
           details_text := Plain ''Select a secret to view details. Press Enter on a secret to load its value.'',
           rightBox_title := ''Details''\<rparr>
      else if state st = moveSelectTarget then
        focusList (list_setSelectedIndex 0 (setListOptionsFromSecrets (filteredSecrets st)
          (setLeftTitle (''Secrets '' @ bullet @ '' '' @
                           (case currentVault st of None \<Rightarrow> [] | Some v \<Rightarrow> vault_name v))
            (st\<lparr>state := listSecrets\<rparr>))))
      else if state st = listSecrets then
        focusList ((list_setSelectedIndex 0 (setListOptionsFromVaults (filteredVaults st)
          (setLeftTitle ''Vaults''
            (st\<lparr>state := selectVault, currentVault := None, secretClient := None,
                allSecrets := [], filteredSecrets := [], details_text := Plain []\<rparr>))))
          \<lparr>rightBox_title := ''Details''\<rparr>)
      else st)"

section \<open>The command prompt's submit handler\<close>

text \<open>
  Each branch of the ENTER handler either falls through to the common reset at the end
  of the handler, returns before it, or throws out of the handler (a rejected await
  that nothing in the handler catches).
\<close>

datatype Flow = FallThrough | Return | Throw Failure

definition orEmpty :: "string option \<Rightarrow> string" where
  "orEmpty v = (case v of None \<Rightarrow> [] | Some x \<Rightarrow> x)"

fun findIndex :: "('a \<Rightarrow> bool) \<Rightarrow> 'a list \<Rightarrow> nat option" where
  "findIndex P [] = None"
| "findIndex P (x # xs) =
     (if P x then Some 0 else (case findIndex P xs of None \<Rightarrow> None | Some i \<Rightarrow> Some (Suc i)))"

text \<open>\<^verbatim>\<open>await selectVaultAndLoadSecrets(currentVault!)\<close>, as the branches end with it.\<close>

definition reload :: "App \<Rightarrow> Flow \<times> App" where
  "reload st =
     (case selectVaultAndLoadSecrets (currentVault st) st of
        (Rejected e, st') \<Rightarrow> (Throw e, st')
      | (Resolved u, st') \<Rightarrow> (FallThrough, st'))"

definition submit_editValue :: "string \<Rightarrow> SecretProperties \<Rightarrow> App \<Rightarrow> Flow \<times> App" where
  "submit_editValue cmd s st =
     (case setSecretValue (secret_name s) cmd st of
        (Rejected e, st1) \<Rightarrow> (Throw e, st1)
      | (Resolved u, st1) \<Rightarrow>
          (FallThrough, loadAndShowSecret s (st1\<lparr>details_text := Plain ''Secret updated.''\<rparr>)))"

definition submit_rename :: "string \<Rightarrow> SecretProperties \<Rightarrow> App \<Rightarrow> Flow \<times> App" where
  "submit_rename cmd s st =
     (let newName = trim cmd in
      if newName \<noteq> [] \<and> newName \<noteq> secret_name s then
        (let (v, st1) = getSecretValue s st;
             currentValue = orEmpty v
         in case secretClient st1 of
              None \<Rightarrow> (Throw TypeError, st1)
            | Some uri \<Rightarrow>
                (case setSecret uri newName currentValue (remote st1) of
                   (Rejected e, r) \<Rightarrow> (Throw e, st1\<lparr>remote := r\<rparr>)
                 | (Resolved u, r) \<Rightarrow>
                     (let r' = snd (beginDeleteSecret uri (secret_name s) r)
                      in reload (st1\<lparr>remote := r',
                                     details_text := Plain (''Renamed to '' @ newName @ ''.'')\<rparr>))))
      else (FallThrough, st))"

definition submit_moveTarget :: "string \<Rightarrow> SecretProperties \<Rightarrow> App \<Rightarrow> Flow \<times> App" where
  "submit_moveTarget cmd s st =
     (let targetName = toLowerCase (trim cmd) in
      case find (\<lambda>v. toLowerCase (vault_name v) = targetName) (allVaults st) of
        Some targetVault \<Rightarrow>
          (Return,
           st\<lparr>moveTargetVault := Some targetVault, actionMode := moveNewName,
              commandBar_title := ''Move '' @ bullet @ '' New name for '' @ secret_name s
                                  @ '' @ '' @ vault_name targetVault,
              commandBar_value := secret_name s,
              commandBar_visible := True, commandBar_focused := True\<rparr>)
      | None \<Rightarrow> (FallThrough, st\<lparr>details_text := Plain (''Vault not found: '' @ cmd)\<rparr>))"

definition submit_moveNewName ::
  "string \<Rightarrow> SecretProperties \<Rightarrow> Vault \<Rightarrow> App \<Rightarrow> Flow \<times> App" where
  "submit_moveNewName cmd s target st =
     (let newName = trim cmd;
          (v, st1) = getSecretValue s st;
          val = orEmpty v;
          asName = (if newName \<noteq> [] then newName else secret_name s)
      in case setSecret (vaultUri target) asName val (remote st1) of
           (Rejected e, r) \<Rightarrow> (Throw e, st1\<lparr>remote := r\<rparr>)
         | (Resolved u, r) \<Rightarrow>
             reload (st1\<lparr>remote := r,
                         details_text := Plain (''Copied to vault '' @ vault_name target
                                                @ '' as '' @ asName @ ''.'')\<rparr>))"

definition submit_createName :: "string \<Rightarrow> App \<Rightarrow> Flow \<times> App" where
  "submit_createName cmd st =
     (let nm = trim cmd in
      if nm = [] then (FallThrough, st\<lparr>details_text := Plain ''Name cannot be empty.''\<rparr>)
      else (Return,
            st\<lparr>createNewSecretName := Some nm, actionMode := createValue,
               commandBar_title := ''Create '' @ bullet @ '' value for '' @ nm,
               commandBar_value := [],
               commandBar_visible := True, commandBar_focused := True\<rparr>))"

definition submit_createValue :: "string \<Rightarrow> string \<Rightarrow> App \<Rightarrow> Flow \<times> App" where
  "submit_createValue cmd createdName st =
     (case secretClient st of
        None \<Rightarrow> (Throw TypeError, st)
      | Some uri \<Rightarrow>
          (case setSecret uri createdName cmd (remote st) of
             (Rejected e, r) \<Rightarrow> (Throw e, st\<lparr>remote := r\<rparr>)
           | (Resolved u, r) \<Rightarrow>
               (case reload (st\<lparr>remote := r,
                                secretCache := (secretCache st)(createdName \<mapsto> Some cmd),
                                details_text := Plain (''Created secret '' @ createdName @ ''.''),
                                createNewSecretName := None\<rparr>) of
                  (FallThrough, st2) \<Rightarrow>
                    (case findIndex (\<lambda>s. secret_name s = createdName) (filteredSecrets st2) of
                       Some idx \<Rightarrow>
                         (FallThrough,
                          loadAndShowSecret (filteredSecrets st2 ! idx)
                            (list_setSelectedIndex idx st2))
                     | None \<Rightarrow> (FallThrough, st2))
                | (fl, st2) \<Rightarrow> (fl, st2))))"

definition submit_bare :: "string \<Rightarrow> App \<Rightarrow> Flow \<times> App" where
  "submit_bare cmd st =
     (let trimmed = trim cmd in
      if trimmed = ''q'' \<or> trimmed = ''quit'' then (FallThrough, quitClean 0 st)
      else (FallThrough, st))"

text \<open>
  The if/else-if chain of the handler. A mode whose payload test fails
  (\<^verbatim>\<open>actionMode === "editValue" && actionSecret\<close>) reaches the last \<^verbatim>\<open>else\<close>, the bare
  command. \<^verbatim>\<open>createNewSecretName\<close> is tested for truthiness: the empty string fails it.
\<close>

definition commandBar_branch :: "string \<Rightarrow> App \<Rightarrow> Flow \<times> App" where
  "commandBar_branch cmd st =
     (if actionMode st = editValue \<and> actionSecret st \<noteq> None then
        submit_editValue cmd (the (actionSecret st)) st
      else if actionMode st = rename \<and> actionSecret st \<noteq> None then
        submit_rename cmd (the (actionSecret st)) st
      else if actionMode st = moveTarget \<and> actionSecret st \<noteq> None then
        submit_moveTarget cmd (the (actionSecret st)) st
      else if actionMode st = moveNewName \<and> actionSecret st \<noteq> None
              \<and> moveTargetVault st \<noteq> None then
        submit_moveNewName cmd (the (actionSecret st)) (the (moveTargetVault st)) st
      else if actionMode st = createName then
        submit_createName cmd st
      else if actionMode st = createValue \<and> createNewSecretName st \<noteq> None
              \<and> createNewSecretName st \<noteq> Some [] then
        submit_createValue cmd (the (createNewSecretName st)) st
      else submit_bare cmd st)"

text \<open>
  The handler: the branch, then (unless the branch returned or threw)
  \<^verbatim>\<open>actionMode = "none"; actionSecret = null; closeCommandBar()\<close>. A throw leaves the
  state as it was at the rejected await; the handler's promise is rejected and nobody
  awaits it.
\<close>

definition commandBar_ENTER :: "string \<Rightarrow> App \<Rightarrow> unit Promise \<times> App" where
  "commandBar_ENTER cmd st =
     (case commandBar_branch cmd st of
        (FallThrough, st') \<Rightarrow>
          (Resolved (), closeCommandBar (st'\<lparr>actionMode := none, actionSecret := None\<rparr>))
      | (Return, st') \<Rightarrow> (Resolved (), st')
      | (Throw e, st') \<Rightarrow> (Rejected e, st'))"

text \<open>
  The payload tests of the handler's chain, by mode: whether a submission in the
  active mode is taken by that mode's branch.
\<close>

definition modeGuard :: "App \<Rightarrow> bool" where
  "modeGuard st =
     (case actionMode st of
        none \<Rightarrow> False
      | editValue \<Rightarrow> actionSecret st \<noteq> None
      | rename \<Rightarrow> actionSecret st \<noteq> None
      | moveTarget \<Rightarrow> actionSecret st \<noteq> None
      | moveNewName \<Rightarrow> actionSecret st \<noteq> None \<and> moveTargetVault st \<noteq> None
      | createName \<Rightarrow> True
      | createValue \<Rightarrow> createNewSecretName st \<noteq> None \<and> createNewSecretName st \<noteq> Some [])"

section \<open>The list filter\<close>

text \<open>
  The predicate of the filter INPUT handler,
  \<^verbatim>\<open>(v) => v.name.toLowerCase().includes(val.toLowerCase())\<close>, over any item type
  with a display name.
\<close>

definition matches :: "string \<Rightarrow> string \<Rightarrow> bool" where
  "matches val nm = str_includes (toLowerCase nm) (toLowerCase val)"

definition filter_by_name :: "('a \<Rightarrow> string) \<Rightarrow> string \<Rightarrow> 'a list \<Rightarrow> 'a list" where
  "filter_by_name nm val items = filter (\<lambda>v. matches val (nm v)) items"

section \<open>Filter and list handlers\<close>

definition filter_INPUT :: "string \<Rightarrow> App \<Rightarrow> App" where
  "filter_INPUT val st =
     (if state st = selectVault then
        (let fv = filter_by_name vault_name val (allVaults st)
         in setListOptionsFromVaults fv (st\<lparr>filteredVaults := fv\<rparr>))
      else if state st = listSecrets then
        (let fs = filter_by_name secret_name val (allSecrets st)
         in setListOptionsFromSecrets fs (st\<lparr>filteredSecrets := fs\<rparr>))
      else if state st = moveSelectTarget then
        (let fv = filter_by_name vault_name val (allVaults st)
         in setListOptionsFromVaults fv (st\<lparr>filteredVaults := fv\<rparr>))
      else st)"

definition list_SELECTION_CHANGED :: "ListItem option \<Rightarrow> App \<Rightarrow> App" where
  "list_SELECTION_CHANGED selected st =
     (if focus st \<noteq> focus_list then st
      else (case selected of
              None \<Rightarrow> st
            | Some item \<Rightarrow>
                if state st = listSecrets
                then st\<lparr>details_text := SecretPreview (as_secret item)\<rparr> else st))"

text \<open>Choosing a target vault from the list while the view is \<open>moveSelectTarget\<close>.\<close>

definition chooseMoveTarget :: "ListItem \<Rightarrow> App \<Rightarrow> App" where
  "chooseMoveTarget item st =
     (let src = (case moveSourceSecret st of None \<Rightarrow> [] | Some s \<Rightarrow> secret_name s);
          tname = (case item of VaultItem v \<Rightarrow> vault_name v | SecretItem s \<Rightarrow> secret_name s)
      in st\<lparr>moveTargetVault := as_vault item, actionMode := moveNewName,
            commandBar_title := ''Move '' @ bullet @ '' New name for '' @ src @ '' @ '' @ tname,
            commandBar_value := src,
            commandBar_visible := True, commandBar_focused := True\<rparr>)"

text \<open>
  Opening an option by view state, the body that the list's ITEM_SELECTED handler and
  the filter's ENTER handler share.
\<close>

definition openSelected :: "ListItem \<Rightarrow> App \<Rightarrow> unit Promise \<times> App" where
  "openSelected item st =
     (if state st = selectVault then
        (case selectVaultAndLoadSecrets (as_vault item) st of
           (Rejected e, st') \<Rightarrow> (Rejected e, st')
         | (Resolved u, st') \<Rightarrow> (Resolved (), focusList st'))
      else if state st = listSecrets then
        (Resolved (), focusList (loadAndShowSecret (as_secret item) st))
      else if state st = moveSelectTarget then
        (Resolved (), chooseMoveTarget item st)
      else (Resolved (), st))"

definition list_ITEM_SELECTED :: "ListItem option \<Rightarrow> App \<Rightarrow> unit Promise \<times> App" where
  "list_ITEM_SELECTED selected st =
     (case selected of
        None \<Rightarrow> (Resolved (), st)
      | Some item \<Rightarrow> if focus st \<noteq> focus_list then (Resolved (), st) else openSelected item st)"

definition filter_ENTER :: "App \<Rightarrow> unit Promise \<times> App" where
  "filter_ENTER st =
     (if commandBar_visible st then (Resolved (), st)
      else (case list_getSelectedOption st of
              None \<Rightarrow> (Resolved (), st)
            | Some item \<Rightarrow> openSelected item st))"

section \<open>Global key handling\<close>

definition copyToClipboard :: "SecretProperties \<Rightarrow> App \<Rightarrow> App" where
  "copyToClipboard sp st =
     (let (v, st1) = getSecretValue sp st in
      if pbcopy_available st1
      then st1\<lparr>clipboard := orEmpty v, details_text := Plain ''Secret copied to clipboard.''\<rparr>
      else st1\<lparr>details_text := Plain ''Failed to copy to clipboard.''\<rparr>)"

definition startEdit :: "SecretProperties \<Rightarrow> App \<Rightarrow> App" where
  "startEdit sp st =
     (let (v, st1) = getSecretValue sp st in
      st1\<lparr>actionMode := editValue, actionSecret := Some sp,
          commandBar_title := ''Edit value '' @ bullet @ '' '' @ secret_name sp,
          commandBar_value := orEmpty v,
          commandBar_visible := True, commandBar_focused := True\<rparr>)"

definition startRename :: "SecretProperties \<Rightarrow> App \<Rightarrow> App" where
  "startRename sp st =
     st\<lparr>actionMode := rename, actionSecret := Some sp,
        commandBar_title := ''Rename '' @ bullet @ '' '' @ secret_name sp @ '' '' @ arrow,
        commandBar_value := [],
        commandBar_visible := True, commandBar_focused := True\<rparr>"

definition startMove :: "SecretProperties \<Rightarrow> App \<Rightarrow> App" where
  "startMove sp st =
     (let st1 = st\<lparr>actionMode := moveTarget, actionSecret := Some sp,
                   moveSourceSecret := Some sp, moveTargetVault := None,
                   state := moveSelectTarget\<rparr>;
          st2 = (setLeftTitle ''Target Vault'' st1)\<lparr>filter_value := [],
                   filteredVaults := allVaults st1\<rparr>;
          st3 = focusList (list_setSelectedIndex 0
                  (setListOptionsFromVaults (filteredVaults st2) st2))
      in st3\<lparr>details_text := Plain (''Select target vault for '' @ secret_name sp),
             rightBox_title := ''Move '' @ bullet @ '' '' @ secret_name sp\<rparr>)"

definition startCreate :: "App \<Rightarrow> App" where
  "startCreate st =
     st\<lparr>actionMode := createName, createNewSecretName := None,
        commandBar_title := ''Create '' @ bullet @ '' secret name'',
        commandBar_value := [],
        commandBar_visible := True, commandBar_focused := True\<rparr>"

text \<open>
  The keys of the detail view; \<open>None\<close> when the key is not one of them or no option
  is selected, so that the later bindings are tried.
\<close>

definition secretKey :: "string \<Rightarrow> App \<Rightarrow> App option" where
  "secretKey nm st =
     (case list_getSelectedOption st of
        None \<Rightarrow> None
      | Some item \<Rightarrow>
          (let sp = as_secret item in
           if nm = ''c'' then Some (copyToClipboard sp st)
           else if nm = ''e'' then Some (startEdit sp st)
           else if nm = ''r'' then Some (startRename sp st)
           else if nm = ''m'' then Some (startMove sp st)
           else None))"

definition keypress :: "string \<Rightarrow> App \<Rightarrow> App" where
  "keypress nm st =
     (if nm = ''/'' then focusFilter st
      else if nm = '':'' then openCommandBar st
      else if nm = ''tab'' then (if focus st = focus_filter then focusList st else focusFilter st)
      else if nm = ''escape'' then
        (if commandBar_visible st then closeCommandBar st
         else if focus st = focus_filter then focusList st
         else goBackOneLayer st)
      else (case (if state st = listSecrets \<and> focus st = focus_list \<and> atSecretDetail st
                  then secretKey nm st else None) of
              Some st' \<Rightarrow> st'
            | None \<Rightarrow>
                if state st = listSecrets \<and> focus st = focus_list \<and> nm = ''n'' then startCreate st
                else if nm = ''b'' then goBackOneLayer st
                else st))"

text \<open>
  The state \<^verbatim>\<open>main\<close> reaches once the vaults have been discovered (the discovery
  itself, through the command line tool, is outside the model).
\<close>

definition started :: "Vault list \<Rightarrow> Remote \<Rightarrow> App" where
  "started vs r =
     \<lparr>state = selectVault, focus = focus_list, allVaults = vs, filteredVaults = vs,
      secretClient = None, currentVault = None, secretCache = Map.empty,
      allSecrets = [], filteredSecrets = [], atSecretDetail = False,
      actionMode = none, actionSecret = None, moveTargetVault = None,
      moveSourceSecret = None, createNewSecretName = None,
      list_options = map VaultItem vs, list_selectedIndex = 0, list_reindex = clampIndex,
      list_focused = True,
      filter_value = [], filter_focused = False,
      commandBar_visible = False, commandBar_value = [], commandBar_title = ''Command'',
      commandBar_focused = False,
      details_text = Plain ''Select a Key Vault on the left, then browse secrets. Use filter to narrow results.'',
      leftBox_title = ''Vaults'', rightBox_title = ''Details'',
      remote = r, pbcopy_available = True, clipboard = [], exitCode = None\<rparr>"

section \<open>Sample data\<close>

text \<open>
  Two vaults that both hold a secret named \<open>db\<close>, with different values, and the
  session that has opened the first of them.
\<close>

definition alpha :: Vault where
  "alpha = \<lparr>vault_name = ''alpha'', vaultUri = ''https://alpha.vault.azure.net'',
            vault_id = ''id-alpha'', location = None\<rparr>"

definition beta :: Vault where
  "beta = \<lparr>vault_name = ''beta'', vaultUri = ''https://beta.vault.azure.net'',
           vault_id = ''id-beta'', location = None\<rparr>"

definition db :: SecretProperties where
  "db = \<lparr>secret_name = ''db'', contentType = None, enabled = None\<rparr>"


definition service :: Remote where
  "service =
     \<lparr>contents = (\<lambda>u. if u = ''https://alpha.vault.azure.net'' then [(''db'', ''a-val'')]
                      else if u = ''https://beta.vault.azure.net'' then [(''db'', ''b-val'')]
                      else []),
      denied = (\<lambda>c. False), calls = []\<rparr>"

definition in_alpha :: App where
  "in_alpha = snd (list_ITEM_SELECTED (Some (VaultItem alpha)) (started [alpha, beta] service))"

text \<open>
  The walk of a user who opens \<open>db\<close> in the first vault, goes back to the vault
  list, opens the second vault and opens its \<open>db\<close>.
\<close>

definition viewed_db :: App where
  "viewed_db = snd (list_ITEM_SELECTED (Some (SecretItem db)) in_alpha)"

definition back_at_vaults :: App where
  "back_at_vaults = keypress ''escape'' (keypress ''escape'' viewed_db)"

definition in_beta :: App where
  "in_beta = snd (list_ITEM_SELECTED (Some (VaultItem beta)) back_at_vaults)"

definition viewed_db_in_beta :: App where
  "viewed_db_in_beta = snd (list_ITEM_SELECTED (Some (SecretItem db)) in_beta)"

text \<open>
  Three vaults whose names all contain the letter a, the second one selected in the
  list, before the user types that letter into the filter.
\<close>

definition gamma :: Vault where
  "gamma = \<lparr>vault_name = ''gamma'', vaultUri = ''https://gamma.vault.azure.net'',
            vault_id = ''id-gamma'', location = None\<rparr>"

definition second_selected :: App where
  "second_selected = (started [alpha, beta, gamma] service)\<lparr>list_selectedIndex := 1\<rparr>"

text \<open>
  The move workflow from the detail view of \<open>db\<close>: the move key, then either the
  prompt opened to type a vault name, or the second vault chosen from the list.
\<close>

definition choosing_target :: App where
  "choosing_target = keypress ''m'' viewed_db"

definition typing_target :: App where
  "typing_target = keypress '':'' choosing_target"

definition naming_copy :: App where
  "naming_copy = snd (list_ITEM_SELECTED (Some (VaultItem beta)) choosing_target)"

text \<open>
  The same session against a service that rejects the get of \<open>db\<close> in the first
  vault (so that \<^verbatim>\<open>null\<close> is cached for it), and against one that rejects every set.
\<close>

definition sealed_service :: Remote where
  "sealed_service = service\<lparr>denied := (\<lambda>c. c = GetCall ''https://alpha.vault.azure.net'' ''db'')\<rparr>"

definition readonly_service :: Remote where
  "readonly_service = service\<lparr>denied := isSet\<rparr>"

definition view_db_on :: "Remote \<Rightarrow> App" where
  "view_db_on r =
     snd (list_ITEM_SELECTED (Some (SecretItem db))
       (snd (list_ITEM_SELECTED (Some (VaultItem alpha)) (started [alpha, beta] r))))"

definition renaming_on :: "Remote \<Rightarrow> App" where
  "renaming_on r = keypress ''r'' (view_db_on r)"

definition editing_on :: "Remote \<Rightarrow> App" where
  "editing_on r = keypress ''e'' (view_db_on r)"

definition naming_copy_on :: "Remote \<Rightarrow> App" where
  "naming_copy_on r =
     snd (list_ITEM_SELECTED (Some (VaultItem beta)) (keypress ''m'' (view_db_on r)))"

definition creating_on :: "Remote \<Rightarrow> App" where
  "creating_on r = snd (commandBar_ENTER ''api-key'' (keypress ''n'' (view_db_on r)))"

text \<open>
  After a vault name that matches nothing was submitted in \<open>moveTarget\<close>: focus is
  brought back to the list with the tab key, and a vault is chosen there.
\<close>

definition orphaned_naming :: App where
  "orphaned_naming =
     snd (list_ITEM_SELECTED (Some (VaultItem beta))
       (keypress ''tab'' (keypress ''tab'' (snd (commandBar_ENTER ''nope'' typing_target)))))"

text \<open>The other way into \<open>moveNewName\<close>: the vault's name typed into the prompt.\<close>

definition typed_naming :: App where
  "typed_naming = snd (commandBar_ENTER ''beta'' typing_target)"

section \<open>Properties of the filter\<close>

lemma startsWith_iff: "startsWith s p \<longleftrightarrow> (\<exists>r. s = p @ r)"
  by (induction s p rule: startsWith.induct) auto

lemma str_includes_iff: "str_includes hay needle \<longleftrightarrow> (\<exists>pre post. hay = pre @ needle @ post)"
proof (induction hay)
  case Nil
  then show ?case by auto
next
  case (Cons h hs)
  show ?case
  proof
    assume "str_includes (h # hs) needle"
    then consider "startsWith (h # hs) needle" | "str_includes hs needle" by auto
    then show "\<exists>pre post. h # hs = pre @ needle @ post"
    proof cases
      case 1
      then obtain r where "h # hs = needle @ r" by (auto simp: startsWith_iff)
      then have "h # hs = [] @ needle @ r" by simp
      then show ?thesis by blast
    next
      case 2
      then obtain pre post where "hs = pre @ needle @ post" using Cons.IH by auto
      then have "h # hs = (h # pre) @ needle @ post" by simp
      then show ?thesis by blast
    qed
  next
    assume "\<exists>pre post. h # hs = pre @ needle @ post"
    then obtain pre post where e: "h # hs = pre @ needle @ post" by blast
    show "str_includes (h # hs) needle"
    proof (cases pre)
      case Nil
      then have "startsWith (h # hs) needle" using e by (auto simp: startsWith_iff)
      then show ?thesis by simp
    next
      case (Cons p ps)
      then have "hs = ps @ needle @ post" using e by simp
      then have "str_includes hs needle" using Cons.IH by blast
      then show ?thesis by simp
    qed
  qed
qed

lemma str_includes_empty: "str_includes hay []"
  by (cases hay) simp_all

lemma lower_char_idem: "lower_char (lower_char c) = lower_char c"
  by (cases c) (auto simp: lower_char_def Let_def)

lemma toLowerCase_idem: "toLowerCase (toLowerCase s) = toLowerCase s"
  by (simp add: toLowerCase_def lower_char_idem)

lemma matches_iff:
  "matches val nm \<longleftrightarrow> (\<exists>pre post. toLowerCase nm = pre @ toLowerCase val @ post)"
  by (simp add: matches_def str_includes_iff)

lemma matches_lower: "matches (toLowerCase val) (toLowerCase nm) = matches val nm"
  by (simp add: matches_def toLowerCase_idem)

lemma filter_by_name_set:
  "x \<in> set (filter_by_name nm val items) \<longleftrightarrow> x \<in> set items \<and> matches val (nm x)"
  by (simp add: filter_by_name_def)

lemma filter_by_name_idem:
  "filter_by_name nm val (filter_by_name nm val items) = filter_by_name nm val items"
  by (simp add: filter_by_name_def)

lemma filter_by_name_empty: "filter_by_name nm [] items = items"
  by (simp add: filter_by_name_def matches_def toLowerCase_def str_includes_empty)

lemma filter_INPUT_frame:
  "allVaults (filter_INPUT val st) = allVaults st \<and> allSecrets (filter_INPUT val st) = allSecrets st"
  by (simp add: filter_INPUT_def Let_def setListOptionsFromVaults_def
      setListOptionsFromSecrets_def list_setOptions_def)

lemma filter_INPUT_projection:
  "filteredVaults (filter_INPUT val st) =
     (if state st = listSecrets then filteredVaults st
      else filter_by_name vault_name val (allVaults st))
   \<and> filteredSecrets (filter_INPUT val st) =
     (if state st = listSecrets then filter_by_name secret_name val (allSecrets st)
      else filteredSecrets st)"
  by (cases "state st")
     (simp_all add: filter_INPUT_def Let_def setListOptionsFromVaults_def
        setListOptionsFromSecrets_def list_setOptions_def)

lemma filter_INPUT_options:
  "list_options (filter_INPUT val st) =
     (if state st = listSecrets then map SecretItem (filter_by_name secret_name val (allSecrets st))
      else map VaultItem (filter_by_name vault_name val (allVaults st)))"
  by (cases "state st")
     (simp_all add: filter_INPUT_def Let_def setListOptionsFromVaults_def
        setListOptionsFromSecrets_def list_setOptions_def)

lemma filter_INPUT_index:
  "list_selectedIndex (filter_INPUT val st) =
     list_reindex st (list_selectedIndex st) (length (list_options (filter_INPUT val st)))"
  by (cases "state st")
     (simp_all add: filter_INPUT_def Let_def setListOptionsFromVaults_def
        setListOptionsFromSecrets_def list_setOptions_def)

text \<open>
  C7. The filter keeps exactly the items whose lower-cased display name contains the
  lower-cased query as a contiguous run, so letter case of query and name does not
  matter (\<open>KV\<close> finds \<open>prod-kv-01\<close> and \<open>kv\<close> finds \<open>PROD-KV-01\<close>); filtering a filtered list again with the same query changes nothing; the
  empty query keeps every item; and the filter handler writes only the filtered
  projections (always computed from the full collection), never \<open>allVaults\<close> or
  \<open>allSecrets\<close>.
\<close>

theorem filter_contract:
  "(x \<in> set (filter_by_name nm q S) \<longleftrightarrow>
      x \<in> set S \<and> (\<exists>pre post. toLowerCase (nm x) = pre @ toLowerCase q @ post))
   \<and> matches (toLowerCase q) (toLowerCase n) = matches q n
   \<and> matches ''KV'' ''prod-kv-01'' \<and> matches ''kv'' ''PROD-KV-01'' \<and> \<not> matches ''kx'' ''prod-kv-01''
   \<and> filter_by_name nm q (filter_by_name nm q S) = filter_by_name nm q S
   \<and> filter_by_name nm [] S = S
   \<and> allVaults (filter_INPUT q st) = allVaults st
   \<and> allSecrets (filter_INPUT q st) = allSecrets st
   \<and> filteredVaults (filter_INPUT q st) =
       (if state st = listSecrets then filteredVaults st
        else filter_by_name vault_name q (allVaults st))
   \<and> filteredSecrets (filter_INPUT q st) =
       (if state st = listSecrets then filter_by_name secret_name q (allSecrets st)
        else filteredSecrets st)"
proof -
  have "matches ''KV'' ''prod-kv-01'' \<and> matches ''kv'' ''PROD-KV-01''
      \<and> \<not> matches ''kx'' ''prod-kv-01''"
    by (simp add: matches_def toLowerCase_def lower_char_def)
  then show ?thesis
    using filter_by_name_set [of x nm q S] matches_iff [of q "nm x"] matches_lower [of q n]
      filter_by_name_idem [of nm q S] filter_by_name_empty [of nm S]
      filter_INPUT_frame [of q st] filter_INPUT_projection [of q st]
    by simp
qed

section \<open>Properties of the value cache\<close>

lemma fetchIntoCache_fields:
  "secretCache (fetchIntoCache uri n st) n \<noteq> None"
  "secretClient (fetchIntoCache uri n st) = secretClient st"
  "calls (remote (fetchIntoCache uri n st)) = calls (remote st) @ [GetCall uri n]"
  by (auto simp: fetchIntoCache_def getSecret_def record_call_def Let_def split: option.splits)



lemma getSecretValue_client: "secretClient (snd (getSecretValue sp st)) = secretClient st"
  by (auto simp: getSecretValue_def Let_def fetchIntoCache_fields(2) split: option.splits)









section \<open>The cache across vaults\<close>

lemmas walk_defs =
  list_ITEM_SELECTED_def openSelected_def started_def selectVaultAndLoadSecrets_def
  loadAndShowSecret_def keypress_def goBackOneLayer_def fetchIntoCache_def getSecret_def
  listPropertiesOfSecrets_def record_call_def setLeftTitle_def focusList_def focusFilter_def
  list_setSelectedIndex_def setListOptionsFromSecrets_def setListOptionsFromVaults_def
  list_setOptions_def clampIndex_def closeCommandBar_def openCommandBar_def
  list_getSelectedOption_def Let_def

lemmas sample_defs = alpha_def beta_def db_def service_def

lemma goBackOneLayer_cache: "secretCache (goBackOneLayer st) = secretCache st"
  by (simp add: goBackOneLayer_def setLeftTitle_def focusList_def list_setSelectedIndex_def
      setListOptionsFromSecrets_def setListOptionsFromVaults_def list_setOptions_def)

lemma selectVaultAndLoadSecrets_cache:
  "secretCache (snd (selectVaultAndLoadSecrets v st)) = secretCache st"
  by (simp add: selectVaultAndLoadSecrets_def listPropertiesOfSecrets_def record_call_def
      setLeftTitle_def focusList_def list_setSelectedIndex_def setListOptionsFromSecrets_def
      list_setOptions_def Let_def split: option.splits)

text \<open>
  C1, as the code behaves. Neither back navigation nor selecting a vault touches the
  cache. In the walk, \<open>db\<close> is fetched in the first vault; after going back to the
  vault list the entry is still cached; after the second vault is opened it is still
  cached, and opening \<open>db\<close> there shows the first vault's value without any get being
  sent to the second vault, which holds a different value.
\<close>

theorem cache_survives_vault_switch:
  "secretCache (goBackOneLayer st) = secretCache st
   \<and> secretCache (snd (selectVaultAndLoadSecrets v st)) = secretCache st
   \<and> state back_at_vaults = selectVault \<and> currentVault back_at_vaults = None
   \<and> secretCache back_at_vaults ''db'' = Some (Some ''a-val'')
   \<and> state in_beta = listSecrets \<and> currentVault in_beta = Some beta
   \<and> secretCache in_beta ''db'' = Some (Some ''a-val'')
   \<and> details_text viewed_db_in_beta = SecretDetails db (Some ''a-val'')
   \<and> map_of (contents (remote viewed_db_in_beta) (vaultUri beta)) ''db'' = Some ''b-val''
   \<and> calls (remote viewed_db_in_beta) =
       [ListCall (vaultUri alpha), GetCall (vaultUri alpha) ''db'', ListCall (vaultUri beta)]"
proof -
  have 1: "state back_at_vaults = selectVault \<and> currentVault back_at_vaults = None
      \<and> secretCache back_at_vaults ''db'' = Some (Some ''a-val'')"
    by (simp add: back_at_vaults_def viewed_db_def in_alpha_def walk_defs sample_defs)
  have 2: "state in_beta = listSecrets \<and> currentVault in_beta = Some beta
      \<and> secretCache in_beta ''db'' = Some (Some ''a-val'')"
    by (simp add: in_beta_def back_at_vaults_def viewed_db_def in_alpha_def walk_defs sample_defs)
  have 3: "details_text viewed_db_in_beta = SecretDetails db (Some ''a-val'')
      \<and> map_of (contents (remote viewed_db_in_beta) (vaultUri beta)) ''db'' = Some ''b-val''
      \<and> calls (remote viewed_db_in_beta) =
       [ListCall (vaultUri alpha), GetCall (vaultUri alpha) ''db'', ListCall (vaultUri beta)]"
    by (simp add: viewed_db_in_beta_def in_beta_def back_at_vaults_def viewed_db_def
        in_alpha_def walk_defs sample_defs)
  show ?thesis
    using 1 2 3 goBackOneLayer_cache [of st] selectVaultAndLoadSecrets_cache [of v st]
    by simp
qed

section \<open>The selection index under the filter\<close>

text \<open>
  C9, as the code behaves. The filter handler only replaces the options: the selection
  index afterwards is whatever the widget's \<^verbatim>\<open>setOptions\<close> makes of the old index, and
  the handler never sets it. With a widget that keeps the index, the second of three
  vaults selected, typing a letter that all three names contain leaves the second one
  selected.
\<close>

theorem filter_keeps_selection_index:
  "list_selectedIndex (filter_INPUT val st) =
     list_reindex st (list_selectedIndex st) (length (list_options (filter_INPUT val st)))
   \<and> list_reindex second_selected = clampIndex
   \<and> list_options (filter_INPUT ''a'' second_selected) = map VaultItem [alpha, beta, gamma]
   \<and> list_selectedIndex (filter_INPUT ''a'' second_selected) = 1"
proof -
  have "list_reindex second_selected = clampIndex
      \<and> list_options (filter_INPUT ''a'' second_selected) = map VaultItem [alpha, beta, gamma]
      \<and> list_selectedIndex (filter_INPUT ''a'' second_selected) = 1"
    by (simp add: second_selected_def filter_INPUT_def started_def filter_by_name_def
        matches_def toLowerCase_def lower_char_def setListOptionsFromVaults_def
        list_setOptions_def clampIndex_def sample_defs gamma_def Let_def)
  then show ?thesis
    using filter_INPUT_index [of val st] by simp
qed

section \<open>The move workflow\<close>

lemma find_None_iff_ball: "find P xs = None \<longleftrightarrow> (\<forall>x\<in>set xs. \<not> P x)"
  by (induction xs) auto

lemma closeCommandBar_fields:
  "actionMode (closeCommandBar st) = actionMode st"
  "actionSecret (closeCommandBar st) = actionSecret st"
  "details_text (closeCommandBar st) = details_text st"
  "state (closeCommandBar st) = state st"
  "moveSourceSecret (closeCommandBar st) = moveSourceSecret st"
  "moveTargetVault (closeCommandBar st) = moveTargetVault st"
  "createNewSecretName (closeCommandBar st) = createNewSecretName st"
  "exitCode (closeCommandBar st) = exitCode st"
  "remote (closeCommandBar st) = remote st"
  "secretCache (closeCommandBar st) = secretCache st"
  "commandBar_visible (closeCommandBar st) = False"
  by (simp_all add: closeCommandBar_def focusList_def focusFilter_def Let_def)

text \<open>
  C3, as the code behaves. A vault name that matches no known vault is reported as
  \<open>Vault not found: \<close> followed by the submitted text, and the handler then falls
  through to its common reset: the action mode is \<open>none\<close>, the action secret is
  cleared and the prompt is closed, while the view stays where it was and
  \<open>moveSourceSecret\<close> is kept.
\<close>

theorem unmatched_target_resets_mode:
  assumes "actionMode st = moveTarget" and "actionSecret st = Some s"
    and "\<forall>v\<in>set (allVaults st). toLowerCase (vault_name v) \<noteq> toLowerCase (trim cmd)"
  shows "fst (commandBar_ENTER cmd st) = Resolved ()
    \<and> details_text (snd (commandBar_ENTER cmd st)) = Plain (''Vault not found: '' @ cmd)
    \<and> actionMode (snd (commandBar_ENTER cmd st)) = none
    \<and> actionSecret (snd (commandBar_ENTER cmd st)) = None
    \<and> commandBar_visible (snd (commandBar_ENTER cmd st)) = False
    \<and> state (snd (commandBar_ENTER cmd st)) = state st
    \<and> moveSourceSecret (snd (commandBar_ENTER cmd st)) = moveSourceSecret st"
proof -
  have "find (\<lambda>v. toLowerCase (vault_name v) = toLowerCase (trim cmd)) (allVaults st) = None"
    using assms(3) by (simp add: find_None_iff_ball)
  then have "commandBar_branch cmd st
      = (FallThrough, st\<lparr>details_text := Plain (''Vault not found: '' @ cmd)\<rparr>)"
    using assms(1,2) by (simp add: commandBar_branch_def submit_moveTarget_def Let_def)
  then show ?thesis
    by (simp add: commandBar_ENTER_def closeCommandBar_fields)
qed

theorem unmatched_target_resets_mode_witness:
  "actionMode typing_target = moveTarget \<and> actionSecret typing_target = Some db
   \<and> state typing_target = moveSelectTarget
   \<and> details_text (snd (commandBar_ENTER ''nope'' typing_target)) = Plain ''Vault not found: nope''
   \<and> actionMode (snd (commandBar_ENTER ''nope'' typing_target)) = none
   \<and> actionSecret (snd (commandBar_ENTER ''nope'' typing_target)) = None
   \<and> state (snd (commandBar_ENTER ''nope'' typing_target)) = moveSelectTarget"
proof -
  have a: "actionMode typing_target = moveTarget \<and> actionSecret typing_target = Some db
      \<and> state typing_target = moveSelectTarget \<and> allVaults typing_target = [alpha, beta]"
    by (simp add: typing_target_def choosing_target_def viewed_db_def in_alpha_def
        secretKey_def startMove_def walk_defs sample_defs)
  have b: "\<forall>v\<in>set (allVaults typing_target).
      toLowerCase (vault_name v) \<noteq> toLowerCase (trim ''nope'')"
    using a by (simp add: toLowerCase_def lower_char_def trim_def isSpace_def sample_defs)
  show ?thesis
    using unmatched_target_resets_mode [of typing_target db "''nope''"] a b by simp
qed

section \<open>Back navigation out of the move workflow\<close>

lemma goBack_from_moveNewName:
  assumes "actionMode st = moveNewName"
  shows "goBackOneLayer st =
    focusList (setListOptionsFromVaults (filteredVaults st)
      (setLeftTitle ''Target Vault''
        (st\<lparr>actionMode := moveTarget, commandBar_visible := False, state := moveSelectTarget\<rparr>)))"
  using assms by (simp add: goBackOneLayer_def)

lemma goBack_first_fields:
  assumes "actionMode st = moveNewName"
  shows "actionMode (goBackOneLayer st) = moveTarget"
    and "state (goBackOneLayer st) = moveSelectTarget"
    and "list_options (goBackOneLayer st) = map VaultItem (filteredVaults st)"
    and "allSecrets (goBackOneLayer st) = allSecrets st"
    and "filteredSecrets (goBackOneLayer st) = filteredSecrets st"
    and "atSecretDetail (goBackOneLayer st) = atSecretDetail st"
    and "commandBar_visible (goBackOneLayer st) = False"
    and "actionSecret (goBackOneLayer st) = actionSecret st"
    and "leftBox_title (goBackOneLayer st) = ''Target Vault''"
  by (simp_all add: goBack_from_moveNewName [OF assms] focusList_def
      setListOptionsFromVaults_def list_setOptions_def setLeftTitle_def)

lemma goBack_detail_fields:
  assumes "actionMode st \<noteq> moveNewName" and "atSecretDetail st"
  shows "actionMode (goBackOneLayer st) = actionMode st"
    and "state (goBackOneLayer st) = state st"
    and "atSecretDetail (goBackOneLayer st) = False"
    and "filteredSecrets (goBackOneLayer st) = filteredSecrets st"
    and "list_options (goBackOneLayer st) = list_options st"
    and "actionSecret (goBackOneLayer st) = actionSecret st"
    and "leftBox_title (goBackOneLayer st) = leftBox_title st"
    and "details_text (goBackOneLayer st)
          = Plain ''Select a secret to view details. Press Enter on a secret to load its value.''"
  using assms by (simp_all add: goBackOneLayer_def)

lemma goBack_target_fields:
  assumes "actionMode st \<noteq> moveNewName" and "\<not> atSecretDetail st"
    and "state st = moveSelectTarget"
  shows "state (goBackOneLayer st) = listSecrets"
    and "atSecretDetail (goBackOneLayer st) = False"
    and "list_options (goBackOneLayer st) = map SecretItem (filteredSecrets st)"
    and "actionMode (goBackOneLayer st) = actionMode st"
    and "actionSecret (goBackOneLayer st) = actionSecret st"
  using assms
  by (simp_all add: goBackOneLayer_def focusList_def list_setSelectedIndex_def
      setListOptionsFromSecrets_def list_setOptions_def setLeftTitle_def)

text \<open>
  The second back step out of the move workflow entered from the detail view does not
  reach the secret list: the view is still the target-vault selection.
\<close>

theorem second_back_step_counterexample:
  "actionMode naming_copy = moveNewName \<and> atSecretDetail naming_copy
   \<and> state (goBackOneLayer (goBackOneLayer naming_copy)) \<noteq> listSecrets"
proof -
  have a: "actionMode naming_copy = moveNewName \<and> atSecretDetail naming_copy"
    by (simp add: naming_copy_def choosing_target_def viewed_db_def in_alpha_def
        chooseMoveTarget_def secretKey_def startMove_def walk_defs sample_defs)
  then have "state (goBackOneLayer (goBackOneLayer naming_copy)) = moveSelectTarget"
    using goBack_first_fields [of naming_copy]
      goBack_detail_fields [of "goBackOneLayer naming_copy"]
    by simp
  then show ?thesis using a by simp
qed

text \<open>
  C4, as the code behaves. From \<open>moveNewName\<close> with the detail flag set (the move key
  leaves it set), the first back step returns to \<open>moveTarget\<close>, shows the filtered
  vaults in the list and leaves the secret collections as they were. The second back
  step takes the detail branch, which comes before the branch that returns to the
  secret list: it only clears the detail flag and writes the secret-list hint into the
  detail pane, while the view stays the target-vault selection under the title
  \<open>Target Vault\<close>. Only the third back step returns to the secret list, detail flag
  off, and it leaves the action mode \<open>moveTarget\<close> and the action secret set.
\<close>

theorem back_steps_from_moveNewName:
  assumes "actionMode st = moveNewName" and "atSecretDetail st"
  shows "actionMode (goBackOneLayer st) = moveTarget
    \<and> state (goBackOneLayer st) = moveSelectTarget
    \<and> list_options (goBackOneLayer st) = map VaultItem (filteredVaults st)
    \<and> allSecrets (goBackOneLayer st) = allSecrets st
    \<and> filteredSecrets (goBackOneLayer st) = filteredSecrets st
    \<and> state (goBackOneLayer (goBackOneLayer st)) = moveSelectTarget
    \<and> atSecretDetail (goBackOneLayer (goBackOneLayer st)) = False
    \<and> actionMode (goBackOneLayer (goBackOneLayer st)) = moveTarget
    \<and> state (goBackOneLayer (goBackOneLayer (goBackOneLayer st))) = listSecrets
    \<and> atSecretDetail (goBackOneLayer (goBackOneLayer (goBackOneLayer st))) = False
    \<and> list_options (goBackOneLayer (goBackOneLayer (goBackOneLayer st)))
        = map SecretItem (filteredSecrets st)
    \<and> leftBox_title (goBackOneLayer (goBackOneLayer st)) = ''Target Vault''
    \<and> details_text (goBackOneLayer (goBackOneLayer st))
        = Plain ''Select a secret to view details. Press Enter on a secret to load its value.''
    \<and> actionMode (goBackOneLayer (goBackOneLayer (goBackOneLayer st))) = moveTarget
    \<and> actionSecret (goBackOneLayer (goBackOneLayer (goBackOneLayer st))) = actionSecret st"
proof -
  let ?s1 = "goBackOneLayer st"
  let ?s2 = "goBackOneLayer ?s1"
  note first = goBack_first_fields [OF assms(1)]
  have m1: "actionMode ?s1 \<noteq> moveNewName" and d1: "atSecretDetail ?s1"
    using first assms(2) by simp_all
  note second = goBack_detail_fields [OF m1 d1]
  have m2: "actionMode ?s2 \<noteq> moveNewName" and d2: "\<not> atSecretDetail ?s2"
    and v2: "state ?s2 = moveSelectTarget"
    using second first by simp_all
  note third = goBack_target_fields [OF m2 d2 v2]
  show ?thesis
    using first second third by simp
qed

theorem back_steps_from_moveNewName_witness:
  "actionMode naming_copy = moveNewName \<and> atSecretDetail naming_copy
   \<and> state (goBackOneLayer naming_copy) = moveSelectTarget
   \<and> list_options (goBackOneLayer naming_copy) = [VaultItem alpha, VaultItem beta]
   \<and> state (goBackOneLayer (goBackOneLayer naming_copy)) = moveSelectTarget
   \<and> state (goBackOneLayer (goBackOneLayer (goBackOneLayer naming_copy))) = listSecrets
   \<and> atSecretDetail (goBackOneLayer (goBackOneLayer (goBackOneLayer naming_copy))) = False
   \<and> actionMode (goBackOneLayer (goBackOneLayer (goBackOneLayer naming_copy))) = moveTarget
   \<and> actionSecret (goBackOneLayer (goBackOneLayer (goBackOneLayer naming_copy))) = Some db"
proof -
  have a: "actionMode naming_copy = moveNewName \<and> atSecretDetail naming_copy
      \<and> filteredVaults naming_copy = [alpha, beta] \<and> actionSecret naming_copy = Some db"
    by (simp add: naming_copy_def choosing_target_def viewed_db_def in_alpha_def
        chooseMoveTarget_def secretKey_def startMove_def walk_defs sample_defs)
  show ?thesis
    using back_steps_from_moveNewName [of naming_copy] a by simp
qed

section \<open>Frames of the service calls and the handler\<close>

lemma remote_call_frames:
  "contents (record_call c r) = contents r"
  "denied (record_call c r) = denied r"
  "calls (record_call c r) = calls r @ [c]"
  by (simp_all add: record_call_def)

lemma setSecret_cases:
  "setSecret uri n v r =
     (if denied r (SetCall uri n v)
      then (Rejected ServiceError, record_call (SetCall uri n v) r)
      else (Resolved (), (record_call (SetCall uri n v) r)
              \<lparr>contents := (contents r)(uri := AList.update n v (contents r uri))\<rparr>))"
  by (simp add: setSecret_def Let_def)

lemma beginDeleteSecret_frames:
  "denied (snd (beginDeleteSecret uri n r)) = denied r"
  "calls (snd (beginDeleteSecret uri n r)) = calls r @ [DeleteCall uri n]"
  "u \<noteq> uri \<Longrightarrow> contents (snd (beginDeleteSecret uri n r)) u = contents r u"
  "m \<noteq> n \<Longrightarrow> map_of (contents (snd (beginDeleteSecret uri n r)) u) m = map_of (contents r u) m"
  by (auto simp: beginDeleteSecret_def Let_def record_call_def delete_conv' split: option.splits)

lemma getSecretValue_frame:
  "snd (getSecretValue s st) =
     st\<lparr>remote := (remote st)\<lparr>calls := calls (remote (snd (getSecretValue s st)))\<rparr>,
        secretCache := secretCache (snd (getSecretValue s st))\<rparr>"
  by (auto simp: getSecretValue_def fetchIntoCache_def getSecret_def record_call_def Let_def
      split: option.splits)

lemma getSecretValue_null:
  "secretClient st = Some uri \<Longrightarrow> secretCache st (secret_name s) = Some None
   \<Longrightarrow> getSecretValue s st = (None, st)"
  by (simp add: getSecretValue_def)

lemma getSecretValue_hit:
  "secretClient st = Some uri \<Longrightarrow> secretCache st (secret_name s) = Some (Some v)
   \<Longrightarrow> getSecretValue s st = (Some v, st)"
  by (simp add: getSecretValue_def)

lemma getSecretValue_miss:
  "secretClient st = Some uri \<Longrightarrow> secretCache st (secret_name s) = None
   \<Longrightarrow> \<not> denied (remote st) (GetCall uri (secret_name s))
   \<Longrightarrow> map_of (contents (remote st) uri) (secret_name s) = Some v
   \<Longrightarrow> getSecretValue s st =
        (Some v, st\<lparr>remote := record_call (GetCall uri (secret_name s)) (remote st),
                     secretCache := (secretCache st)(secret_name s \<mapsto> Some v)\<rparr>)"
  by (simp add: getSecretValue_def fetchIntoCache_def getSecret_def Let_def)

lemma selectVault_frames:
  "contents (remote (snd (selectVaultAndLoadSecrets v st))) = contents (remote st)"
  "denied (remote (snd (selectVaultAndLoadSecrets v st))) = denied (remote st)"
  "exitCode (snd (selectVaultAndLoadSecrets v st)) = exitCode st"
  "actionMode (snd (selectVaultAndLoadSecrets v st)) = actionMode st"
  "actionSecret (snd (selectVaultAndLoadSecrets v st)) = actionSecret st"
  "calls (remote (snd (selectVaultAndLoadSecrets v st))) =
     calls (remote st) @ (case v of None \<Rightarrow> [] | Some x \<Rightarrow> [ListCall (vaultUri x)])"
  by (simp_all add: selectVaultAndLoadSecrets_def listPropertiesOfSecrets_def record_call_def
      setLeftTitle_def focusList_def list_setSelectedIndex_def setListOptionsFromSecrets_def
      list_setOptions_def Let_def split: option.splits)

lemma reload_frames:
  "contents (remote (snd (reload st))) = contents (remote st)"
  "denied (remote (snd (reload st))) = denied (remote st)"
  "exitCode (snd (reload st)) = exitCode st"
  "actionMode (snd (reload st)) = actionMode st"
  "actionSecret (snd (reload st)) = actionSecret st"
  "calls (remote (snd (reload st))) =
     calls (remote st) @ (case currentVault st of None \<Rightarrow> [] | Some x \<Rightarrow> [ListCall (vaultUri x)])"
  "fst (reload st) = FallThrough \<or> (\<exists>e. fst (reload st) = Throw e)"
  using selectVault_frames [of "currentVault st" st]
  by (auto simp: reload_def split: prod.splits Promise.splits)

lemma loadAndShowSecret_frames:
  "exitCode (loadAndShowSecret s st) = exitCode st"
  "contents (remote (loadAndShowSecret s st)) = contents (remote st)"
  "actionMode (loadAndShowSecret s st) = actionMode st"
  by (auto simp: loadAndShowSecret_def fetchIntoCache_def getSecret_def record_call_def Let_def
      split: option.splits)

lemma branch_moveNewName:
  "actionMode st = moveNewName \<Longrightarrow> actionSecret st = Some s \<Longrightarrow> moveTargetVault st = Some tv
   \<Longrightarrow> commandBar_branch cmd st = submit_moveNewName cmd s tv st"
  by (simp add: commandBar_branch_def)

lemma branch_rename:
  "actionMode st = rename \<Longrightarrow> actionSecret st = Some s
   \<Longrightarrow> commandBar_branch cmd st = submit_rename cmd s st"
  by (simp add: commandBar_branch_def)

lemma branch_editValue:
  "actionMode st = editValue \<Longrightarrow> actionSecret st = Some s
   \<Longrightarrow> commandBar_branch cmd st = submit_editValue cmd s st"
  by (simp add: commandBar_branch_def)

lemma branch_createValue:
  "actionMode st = createValue \<Longrightarrow> createNewSecretName st = Some n \<Longrightarrow> n \<noteq> []
   \<Longrightarrow> commandBar_branch cmd st = submit_createValue cmd n st"
  by (simp add: commandBar_branch_def)

lemma branch_none:
  "actionMode st = none \<Longrightarrow> commandBar_branch cmd st = submit_bare cmd st"
  by (simp add: commandBar_branch_def)

lemma submit_moveNewName_with:
  assumes "getSecretValue s st = (v, st1)"
  shows "submit_moveNewName cmd s tv st =
    (let asName = (if trim cmd \<noteq> [] then trim cmd else secret_name s) in
     if denied (remote st1) (SetCall (vaultUri tv) asName (orEmpty v))
     then (Throw ServiceError,
           st1\<lparr>remote := record_call (SetCall (vaultUri tv) asName (orEmpty v)) (remote st1)\<rparr>)
     else reload (st1\<lparr>remote := (record_call (SetCall (vaultUri tv) asName (orEmpty v)) (remote st1))
                          \<lparr>contents := (contents (remote st1))
                             (vaultUri tv := AList.update asName (orEmpty v)
                                               (contents (remote st1) (vaultUri tv)))\<rparr>,
                    details_text := Plain (''Copied to vault '' @ vault_name tv
                                           @ '' as '' @ asName @ ''.'')\<rparr>))"
  using assms by (simp add: submit_moveNewName_def setSecret_cases Let_def)

lemma ENTER_flow:
  "commandBar_ENTER cmd st =
     (case fst (commandBar_branch cmd st) of
        FallThrough \<Rightarrow> (Resolved (), closeCommandBar ((snd (commandBar_branch cmd st))\<lparr>actionMode := none, actionSecret := None\<rparr>))
      | Return \<Rightarrow> (Resolved (), snd (commandBar_branch cmd st))
      | Throw e \<Rightarrow> (Rejected e, snd (commandBar_branch cmd st)))"
  by (simp add: commandBar_ENTER_def split: prod.splits Flow.splits)

lemma reload_resolves:
  "currentVault st = Some cv \<Longrightarrow> \<not> denied (remote st) (ListCall (vaultUri cv))
   \<Longrightarrow> fst (reload st) = FallThrough"
  by (simp add: reload_def selectVaultAndLoadSecrets_def listPropertiesOfSecrets_def
      setLeftTitle_def focusList_def Let_def)

lemma rename_null:
  assumes mode: "actionMode st = rename" "actionSecret st = Some s"
    and client: "secretClient st = Some uri"
    and null: "secretCache st (secret_name s) = Some None"
    and name: "trim cmd \<noteq> []" "trim cmd \<noteq> secret_name s"
  shows "(\<exists>rest. calls (remote (snd (commandBar_ENTER cmd st)))
                  = calls (remote st) @ SetCall uri (trim cmd) [] # rest)
    \<and> (\<not> denied (remote st) (SetCall uri (trim cmd) []) \<longrightarrow>
         map_of (contents (remote (snd (commandBar_ENTER cmd st))) uri) (trim cmd) = Some [])
    \<and> (\<not> denied (remote st) (SetCall uri (trim cmd) [])
        \<and> (\<exists>cv. currentVault st = Some cv \<and> \<not> denied (remote st) (ListCall (vaultUri cv))) \<longrightarrow>
         fst (commandBar_ENTER cmd st) = Resolved ())"
proof -
  define setc where "setc = SetCall uri (trim cmd) []"
  have g: "getSecretValue s st = (None, st)"
    using client null by (rule getSecretValue_null)
  show ?thesis
  proof (cases "denied (remote st) setc")
    case True
    then have "commandBar_branch cmd st
        = (Throw ServiceError, st\<lparr>remote := record_call setc (remote st)\<rparr>)"
      using name client g
      by (simp add: branch_rename [OF mode] submit_rename_def setSecret_cases orEmpty_def
          Let_def setc_def)
    then have "calls (remote (snd (commandBar_ENTER cmd st))) = calls (remote st) @ [setc]"
      by (simp add: ENTER_flow remote_call_frames)
    then show ?thesis using True by (simp add: setc_def)
  next
    case False
    define r where "r = (record_call setc (remote st))
        \<lparr>contents := (contents (remote st))
           (uri := AList.update (trim cmd) [] (contents (remote st) uri))\<rparr>"
    define st2 where "st2 = st\<lparr>remote := snd (beginDeleteSecret uri (secret_name s) r),
        details_text := Plain (''Renamed to '' @ trim cmd @ ''.'')\<rparr>"
    have br: "commandBar_branch cmd st = reload st2"
      using name client g False
      by (simp add: branch_rename [OF mode] submit_rename_def setSecret_cases orEmpty_def
          Let_def setc_def r_def st2_def)
    have rem: "remote (snd (commandBar_ENTER cmd st)) = remote (snd (reload st2))"
      using reload_frames(7) [of st2]
      by (auto simp: ENTER_flow br closeCommandBar_fields)
    have "calls (remote (snd (reload st2)))
        = calls (remote st) @ setc # DeleteCall uri (secret_name s)
            # (case currentVault st of None \<Rightarrow> [] | Some x \<Rightarrow> [ListCall (vaultUri x)])"
      by (simp add: reload_frames st2_def beginDeleteSecret_frames r_def remote_call_frames)
    then have A: "\<exists>rest. calls (remote (snd (reload st2))) = calls (remote st) @ setc # rest"
      by blast
    have B: "map_of (contents (remote (snd (reload st2))) uri) (trim cmd) = Some []"
      using name(2)
      by (simp add: reload_frames st2_def beginDeleteSecret_frames(4) r_def update_conv')
    have C: "fst (commandBar_ENTER cmd st) = Resolved ()"
      if h: "\<exists>cv. currentVault st = Some cv \<and> \<not> denied (remote st) (ListCall (vaultUri cv))"
    proof -
      obtain cv where "currentVault st = Some cv" "\<not> denied (remote st) (ListCall (vaultUri cv))"
        using h by blast
      then have "fst (reload st2) = FallThrough"
        by (intro reload_resolves [of st2 cv])
           (simp_all add: st2_def beginDeleteSecret_frames r_def remote_call_frames)
      then show ?thesis by (simp add: ENTER_flow br)
    qed
    show ?thesis
      unfolding rem using A B C by (simp add: setc_def)
  qed
qed

lemma move_null:
  assumes mode: "actionMode st = moveNewName" "actionSecret st = Some s" "moveTargetVault st = Some tv"
    and client: "secretClient st = Some uri"
    and null: "secretCache st (secret_name s) = Some None"
    and name: "asName = (if trim cmd \<noteq> [] then trim cmd else secret_name s)"
  shows "(\<exists>rest. calls (remote (snd (commandBar_ENTER cmd st)))
                  = calls (remote st) @ SetCall (vaultUri tv) asName [] # rest)
    \<and> (\<not> denied (remote st) (SetCall (vaultUri tv) asName []) \<longrightarrow>
         map_of (contents (remote (snd (commandBar_ENTER cmd st))) (vaultUri tv)) asName = Some [])
    \<and> (\<not> denied (remote st) (SetCall (vaultUri tv) asName [])
        \<and> (\<exists>cv. currentVault st = Some cv \<and> \<not> denied (remote st) (ListCall (vaultUri cv))) \<longrightarrow>
         fst (commandBar_ENTER cmd st) = Resolved ())"
proof -
  define setc where "setc = SetCall (vaultUri tv) asName []"
  have g: "getSecretValue s st = (None, st)"
    using client null by (rule getSecretValue_null)
  define st2 where "st2 = st\<lparr>remote := (record_call setc (remote st))
        \<lparr>contents := (contents (remote st))
           (vaultUri tv := AList.update asName [] (contents (remote st) (vaultUri tv)))\<rparr>,
        details_text := Plain (''Copied to vault '' @ vault_name tv @ '' as '' @ asName @ ''.'')\<rparr>"
  have br: "commandBar_branch cmd st =
      (if denied (remote st) setc
       then (Throw ServiceError, st\<lparr>remote := record_call setc (remote st)\<rparr>)
       else reload st2)"
    using submit_moveNewName_with [OF g, of cmd tv] name
    by (simp add: branch_moveNewName [OF mode] orEmpty_def Let_def st2_def setc_def)
  show ?thesis
  proof (cases "denied (remote st) setc")
    case True
    then have "calls (remote (snd (commandBar_ENTER cmd st))) = calls (remote st) @ [setc]"
      by (simp add: ENTER_flow br remote_call_frames)
    then show ?thesis using True by (simp add: setc_def)
  next
    case False
    then have br': "commandBar_branch cmd st = reload st2" using br by simp
    have rem: "remote (snd (commandBar_ENTER cmd st)) = remote (snd (reload st2))"
      using reload_frames(7) [of st2]
      by (auto simp: ENTER_flow br' closeCommandBar_fields)
    have "calls (remote (snd (reload st2)))
        = calls (remote st) @ setc
            # (case currentVault st of None \<Rightarrow> [] | Some x \<Rightarrow> [ListCall (vaultUri x)])"
      by (simp add: reload_frames st2_def remote_call_frames)
    then have A: "\<exists>rest. calls (remote (snd (reload st2))) = calls (remote st) @ setc # rest"
      by blast
    have B: "map_of (contents (remote (snd (reload st2))) (vaultUri tv)) asName = Some []"
      by (simp add: reload_frames st2_def update_conv')
    have C: "fst (commandBar_ENTER cmd st) = Resolved ()"
      if h: "\<exists>cv. currentVault st = Some cv \<and> \<not> denied (remote st) (ListCall (vaultUri cv))"
    proof -
      obtain cv where "currentVault st = Some cv" "\<not> denied (remote st) (ListCall (vaultUri cv))"
        using h by blast
      then have "fst (reload st2) = FallThrough"
        by (intro reload_resolves [of st2 cv]) (simp_all add: st2_def remote_call_frames)
      then show ?thesis by (simp add: ENTER_flow br')
    qed
    show ?thesis
      unfolding rem using A B C by (simp add: setc_def)
  qed
qed

lemma getSecretValue_keeps:
  "exitCode (snd (getSecretValue s st)) = exitCode st"
  "actionMode (snd (getSecretValue s st)) = actionMode st"
  "actionSecret (snd (getSecretValue s st)) = actionSecret st"
  "details_text (snd (getSecretValue s st)) = details_text st"
  "commandBar_visible (snd (getSecretValue s st)) = commandBar_visible st"
  "currentVault (snd (getSecretValue s st)) = currentVault st"
  "denied (remote (snd (getSecretValue s st))) = denied (remote st)"
  "contents (remote (snd (getSecretValue s st))) = contents (remote st)"
  by (subst getSecretValue_frame, simp)+

lemma setSecretValue_exit: "exitCode (snd (setSecretValue n v st)) = exitCode st"
  by (simp add: setSecretValue_def setSecret_cases split: option.splits)

lemma submit_exit:
  "exitCode (snd (submit_editValue cmd s st)) = exitCode st"
  "exitCode (snd (submit_rename cmd s st)) = exitCode st"
  "exitCode (snd (submit_moveTarget cmd s st)) = exitCode st"
  "exitCode (snd (submit_moveNewName cmd s tv st)) = exitCode st"
  "exitCode (snd (submit_createName cmd st)) = exitCode st"
  "exitCode (snd (submit_createValue cmd n st)) = exitCode st"
proof -
  show "exitCode (snd (submit_editValue cmd s st)) = exitCode st"
    using setSecretValue_exit [of "secret_name s" cmd st]
    by (auto simp: submit_editValue_def loadAndShowSecret_frames split: prod.splits Promise.splits)
  show "exitCode (snd (submit_rename cmd s st)) = exitCode st"
    using getSecretValue_keeps(1) [of s st]
    by (auto simp: submit_rename_def setSecret_cases reload_frames Let_def
        split: prod.splits option.splits)
  show "exitCode (snd (submit_moveTarget cmd s st)) = exitCode st"
    by (simp add: submit_moveTarget_def Let_def split: option.splits)
  show "exitCode (snd (submit_moveNewName cmd s tv st)) = exitCode st"
    using getSecretValue_keeps(1) [of s st]
    by (auto simp: submit_moveNewName_def setSecret_cases reload_frames Let_def
        split: prod.splits)
  show "exitCode (snd (submit_createName cmd st)) = exitCode st"
    by (simp add: submit_createName_def Let_def)
  show "exitCode (snd (submit_createValue cmd n st)) = exitCode st"
  proof (cases "secretClient st")
    case None
    then show ?thesis by (simp add: submit_createValue_def)
  next
    case (Some uri)
    define st1 where "st1 = st\<lparr>remote := (record_call (SetCall uri n cmd) (remote st))
           \<lparr>contents := (contents (remote st))(uri := AList.update n cmd (contents (remote st) uri))\<rparr>,
         secretCache := (secretCache st)(n \<mapsto> Some cmd),
         details_text := Plain (''Created secret '' @ n @ ''.''),
         createNewSecretName := None\<rparr>"
    have e: "exitCode (snd (reload st1)) = exitCode st"
      by (simp add: reload_frames st1_def)
    show ?thesis
    proof (cases "denied (remote st) (SetCall uri n cmd)")
      case True
      then show ?thesis using Some by (simp add: submit_createValue_def setSecret_cases)
    next
      case False
      then have "submit_createValue cmd n st =
         (case reload st1 of
            (FallThrough, st2) \<Rightarrow>
              (case findIndex (\<lambda>s. secret_name s = n) (filteredSecrets st2) of
                 Some idx \<Rightarrow> (FallThrough, loadAndShowSecret (filteredSecrets st2 ! idx)
                                 (list_setSelectedIndex idx st2))
               | None \<Rightarrow> (FallThrough, st2))
          | (fl, st2) \<Rightarrow> (fl, st2))"
        using Some by (simp add: submit_createValue_def setSecret_cases st1_def)
      then show ?thesis
        using e
        by (auto simp: loadAndShowSecret_frames list_setSelectedIndex_def
            split: prod.splits Flow.splits option.splits)
    qed
  qed
qed

lemma guarded_branch_exit:
  assumes "modeGuard st"
  shows "exitCode (snd (commandBar_branch cmd st)) = exitCode st"
  using assms
  by (cases "actionMode st")
     (auto simp: modeGuard_def commandBar_branch_def submit_exit)

lemma guarded_ENTER_exit:
  assumes "modeGuard st"
  shows "exitCode (snd (commandBar_ENTER cmd st)) = exitCode st"
  using guarded_branch_exit [OF assms, of cmd]
  by (auto simp: ENTER_flow closeCommandBar_fields split: Flow.splits)

lemma bare_quit:
  assumes "actionMode st = none" and "trim cmd = ''q'' \<or> trim cmd = ''quit''"
  shows "commandBar_ENTER cmd st
     = (Resolved (), closeCommandBar ((quitClean 0 st)\<lparr>actionMode := none, actionSecret := None\<rparr>))"
  using assms by (auto simp: ENTER_flow branch_none submit_bare_def Let_def)

lemma bare_other:
  assumes "actionMode st = none" and "trim cmd \<noteq> ''q''" and "trim cmd \<noteq> ''quit''"
  shows "commandBar_ENTER cmd st
     = (Resolved (), closeCommandBar (st\<lparr>actionMode := none, actionSecret := None\<rparr>))"
  using assms by (simp add: ENTER_flow branch_none submit_bare_def Let_def)

lemma edit_consumes_text:
  assumes "actionMode st = editValue" "actionSecret st = Some s" "secretClient st = Some uri"
    "\<not> denied (remote st) (SetCall uri (secret_name s) cmd)"
  shows "map_of (contents (remote (snd (commandBar_ENTER cmd st))) uri) (secret_name s) = Some cmd"
  using assms
  by (simp add: ENTER_flow branch_editValue submit_editValue_def setSecretValue_def
      setSecret_cases closeCommandBar_fields loadAndShowSecret_frames update_conv')

lemma edit_set_rejected:
  assumes "actionMode st = editValue" "actionSecret st = Some s" "secretClient st = Some uri"
    "denied (remote st) (SetCall uri (secret_name s) cmd)"
  shows "commandBar_ENTER cmd st
     = (Rejected ServiceError, st\<lparr>remote := record_call (SetCall uri (secret_name s) cmd) (remote st)\<rparr>)"
  using assms
  by (simp add: ENTER_flow branch_editValue submit_editValue_def setSecretValue_def setSecret_cases)

lemma create_set_rejected:
  assumes "actionMode st = createValue" "createNewSecretName st = Some n" "n \<noteq> []"
    "secretClient st = Some uri" "denied (remote st) (SetCall uri n cmd)"
  shows "commandBar_ENTER cmd st
     = (Rejected ServiceError, st\<lparr>remote := record_call (SetCall uri n cmd) (remote st)\<rparr>)"
  using assms
  by (simp add: ENTER_flow branch_createValue submit_createValue_def setSecret_cases)

lemma rename_set_rejected:
  assumes "actionMode st = rename" "actionSecret st = Some s" "secretClient st = Some uri"
    "trim cmd \<noteq> []" "trim cmd \<noteq> secret_name s"
    "\<forall>v. denied (remote st) (SetCall uri (trim cmd) v)"
  shows "fst (commandBar_ENTER cmd st) = Rejected ServiceError
    \<and> actionMode (snd (commandBar_ENTER cmd st)) = rename
    \<and> actionSecret (snd (commandBar_ENTER cmd st)) = Some s
    \<and> details_text (snd (commandBar_ENTER cmd st)) = details_text st
    \<and> commandBar_visible (snd (commandBar_ENTER cmd st)) = commandBar_visible st"
proof -
  obtain v st1 where g: "getSecretValue s st = (v, st1)" by (cases "getSecretValue s st")
  have k: "secretClient st1 = Some uri" "denied (remote st1) = denied (remote st)"
    "actionMode st1 = rename" "actionSecret st1 = Some s" "details_text st1 = details_text st"
    "commandBar_visible st1 = commandBar_visible st"
    using getSecretValue_client [of s st] getSecretValue_keeps [of s st] g assms by simp_all
  have "commandBar_branch cmd st
      = (Throw ServiceError, st1\<lparr>remote := record_call (SetCall uri (trim cmd) (orEmpty v)) (remote st1)\<rparr>)"
    using assms g k
    by (simp add: branch_rename submit_rename_def setSecret_cases Let_def)
  then show ?thesis using k by (simp add: ENTER_flow)
qed

lemma move_set_rejected:
  assumes "actionMode st = moveNewName" "actionSecret st = Some s" "moveTargetVault st = Some tv"
    "\<forall>n v. denied (remote st) (SetCall (vaultUri tv) n v)"
  shows "fst (commandBar_ENTER cmd st) = Rejected ServiceError
    \<and> actionMode (snd (commandBar_ENTER cmd st)) = moveNewName
    \<and> actionSecret (snd (commandBar_ENTER cmd st)) = Some s
    \<and> details_text (snd (commandBar_ENTER cmd st)) = details_text st
    \<and> commandBar_visible (snd (commandBar_ENTER cmd st)) = commandBar_visible st"
proof -
  obtain v st1 where g: "getSecretValue s st = (v, st1)" by (cases "getSecretValue s st")
  have k: "denied (remote st1) = denied (remote st)"
    "actionMode st1 = moveNewName" "actionSecret st1 = Some s" "details_text st1 = details_text st"
    "commandBar_visible st1 = commandBar_visible st"
    using getSecretValue_keeps [of s st] g assms by simp_all
  have "fst (commandBar_branch cmd st) = Throw ServiceError
      \<and> (\<exists>r. snd (commandBar_branch cmd st) = st1\<lparr>remote := r\<rparr>)"
    using assms k submit_moveNewName_with [OF g, of cmd tv]
    by (auto simp: branch_moveNewName Let_def)
  then show ?thesis using k by (auto simp: ENTER_flow)
qed

section \<open>The move is a copy\<close>

lemma getSecretValue_calls:
  "\<exists>gets. calls (remote (snd (getSecretValue s st))) = calls (remote st) @ gets
           \<and> filter isDelete gets = []"
proof (cases "secretClient st")
  case None
  then show ?thesis by (simp add: getSecretValue_def)
next
  case (Some uri)
  show ?thesis
  proof (cases "secretCache st (secret_name s) = None")
    case True
    then have "calls (remote (snd (getSecretValue s st)))
        = calls (remote st) @ [GetCall uri (secret_name s)]"
      using Some by (simp add: getSecretValue_def Let_def fetchIntoCache_fields(3))
    then show ?thesis by simp
  next
    case False
    then have "snd (getSecretValue s st) = st"
      using Some by (auto simp: getSecretValue_def Let_def)
    then show ?thesis by simp
  qed
qed

text \<open>
  C5, amended. Let the prompt be submitted in \<open>moveNewName\<close> for secret \<open>s\<close> and target
  vault \<open>tv\<close> with a non-empty trimmed name \<open>n2\<close>, and let the handler run to
  completion. Then exactly one entry of the store is written: the target vault holds
  \<open>n2\<close> with the value the cache-backed get yields for \<open>s\<close>, the empty string when
  that is \<^verbatim>\<open>null\<close>, written by a set on the target; every other entry of every vault
  is as before, and no delete call is issued. When the source vault holds \<open>s\<close> with
  value \<open>v\<close> and the cache agrees with it (it holds \<open>v\<close> for \<open>s\<close>, or nothing yet and
  the get is not rejected), the target holds \<open>n2\<close> with value \<open>v\<close> and the source
  still holds \<open>s\<close> with value \<open>v\<close>.
\<close>

theorem move_copies_fetched_value:
  assumes mode: "actionMode st = moveNewName" "actionSecret st = Some s"
      "moveTargetVault st = Some tv"
    and name: "trim cmd = n2" "n2 \<noteq> []"
    and completed: "fst (commandBar_ENTER cmd st) = Resolved ()"
  shows "(\<forall>u m. map_of (contents (remote (snd (commandBar_ENTER cmd st))) u) m
            = (if u = vaultUri tv \<and> m = n2 then Some (orEmpty (fst (getSecretValue s st)))
               else map_of (contents (remote st) u) m))
    \<and> (\<forall>u. u \<noteq> vaultUri tv \<longrightarrow>
          contents (remote (snd (commandBar_ENTER cmd st))) u = contents (remote st) u)
    \<and> SetCall (vaultUri tv) n2 (orEmpty (fst (getSecretValue s st)))
        \<in> set (calls (remote (snd (commandBar_ENTER cmd st))))
    \<and> filter isDelete (calls (remote (snd (commandBar_ENTER cmd st))))
        = filter isDelete (calls (remote st))
    \<and> (secretClient st = Some uri
        \<and> map_of (contents (remote st) uri) (secret_name s) = Some v
        \<and> (secretCache st (secret_name s) = Some (Some v)
            \<or> secretCache st (secret_name s) = None
               \<and> \<not> denied (remote st) (GetCall uri (secret_name s))) \<longrightarrow>
        map_of (contents (remote (snd (commandBar_ENTER cmd st))) (vaultUri tv)) n2 = Some v
        \<and> map_of (contents (remote (snd (commandBar_ENTER cmd st))) uri) (secret_name s) = Some v)
    \<and> actionMode (snd (commandBar_ENTER cmd st)) = none"
proof -
  obtain w st1 where g: "getSecretValue s st = (w, st1)" by (cases "getSecretValue s st")
  have c1: "contents (remote st1) = contents (remote st)"
    and cv: "currentVault st1 = currentVault st"
    using getSecretValue_keeps [of s st] g by simp_all
  obtain gets where gs: "calls (remote st1) = calls (remote st) @ gets"
    "filter isDelete gets = []"
    using getSecretValue_calls [of s st] g by auto
  define val where "val = orEmpty w"
  define setc where "setc = SetCall (vaultUri tv) n2 val"
  define st2 where "st2 = st1\<lparr>remote := (record_call setc (remote st1))
                          \<lparr>contents := (contents (remote st1))
                             (vaultUri tv := AList.update n2 val (contents (remote st1) (vaultUri tv)))\<rparr>,
                    details_text := Plain (''Copied to vault '' @ vault_name tv
                                           @ '' as '' @ n2 @ ''.'')\<rparr>"
  have br: "commandBar_branch cmd st =
      (if denied (remote st1) setc
       then (Throw ServiceError, st1\<lparr>remote := record_call setc (remote st1)\<rparr>)
       else reload st2)"
    using submit_moveNewName_with [OF g, of cmd tv] name
    by (simp add: branch_moveNewName [OF mode] Let_def st2_def setc_def val_def)
  have ok: "\<not> denied (remote st1) setc"
    using completed br by (auto simp: ENTER_flow)
  then have br': "commandBar_branch cmd st = reload st2" using br by simp
  have ft: "fst (reload st2) = FallThrough"
    using completed reload_frames(7) [of st2] by (auto simp: ENTER_flow br')
  define st3 where "st3 = snd (reload st2)"
  have res: "snd (commandBar_ENTER cmd st)
      = closeCommandBar (st3\<lparr>actionMode := none, actionSecret := None\<rparr>)"
    by (simp add: ENTER_flow br' ft st3_def)
  have rem: "remote (snd (commandBar_ENTER cmd st)) = remote st3"
    by (simp add: res closeCommandBar_fields)
  have cont: "contents (remote st3)
      = (contents (remote st))(vaultUri tv := AList.update n2 val (contents (remote st) (vaultUri tv)))"
    by (simp add: st3_def reload_frames st2_def c1)
  have w: "fst (getSecretValue s st) = w" using g by simp
  have A: "\<forall>u m. map_of (contents (remote st3) u) m
            = (if u = vaultUri tv \<and> m = n2 then Some val
               else map_of (contents (remote st) u) m)"
    by (auto simp: cont update_conv')
  have C: "\<forall>u. u \<noteq> vaultUri tv \<longrightarrow> contents (remote st3) u = contents (remote st) u"
    by (simp add: cont)
  define lists where
    "lists = (case currentVault st of None \<Rightarrow> [] | Some x \<Rightarrow> [ListCall (vaultUri x)])"
  have cl: "calls (remote st3) = calls (remote st) @ gets @ [setc] @ lists"
    by (simp add: st3_def reload_frames st2_def remote_call_frames gs(1) cv lists_def)
  have "filter isDelete lists = []"
    by (auto simp: lists_def split: option.splits)
  then have D: "filter isDelete (calls (remote st3)) = filter isDelete (calls (remote st))"
    and D': "setc \<in> set (calls (remote st3))"
    using gs(2) by (simp_all add: cl setc_def)
  have E: "actionMode (snd (commandBar_ENTER cmd st)) = none"
    by (simp add: res closeCommandBar_fields)
  have F: "map_of (contents (remote st3) (vaultUri tv)) n2 = Some v
        \<and> map_of (contents (remote st3) uri) (secret_name s) = Some v"
    if h: "secretClient st = Some uri"
      "map_of (contents (remote st) uri) (secret_name s) = Some v"
      "secretCache st (secret_name s) = Some (Some v)
            \<or> secretCache st (secret_name s) = None
               \<and> \<not> denied (remote st) (GetCall uri (secret_name s))"
  proof -
    have "fst (getSecretValue s st) = Some v"
      using h getSecretValue_hit [of st uri s v] getSecretValue_miss [of st uri s v] by auto
    then have "val = v" using w by (simp add: val_def orEmpty_def)
    then show ?thesis using A h(2) by auto
  qed
  show ?thesis
    unfolding rem w using A C D D' E F rem by (simp add: val_def [symmetric] setc_def [symmetric])
qed

section \<open>Sample sessions\<close>

lemmas key_defs = secretKey_def startMove_def startEdit_def startRename_def startCreate_def
  chooseMoveTarget_def getSecretValue_def

lemmas text_defs = trim_def isSpace_def toLowerCase_def lower_char_def

lemma service_fields:
  "denied service = (\<lambda>c. False)" "calls service = []"
  "contents service ''https://alpha.vault.azure.net'' = [(''db'', ''a-val'')]"
  "contents service ''https://beta.vault.azure.net'' = [(''db'', ''b-val'')]"
  by (simp_all add: service_def)

lemma sealed_service_fields:
  "denied sealed_service = (\<lambda>c. c = GetCall ''https://alpha.vault.azure.net'' ''db'')"
  "contents sealed_service = contents service"
  by (simp_all add: sealed_service_def)

lemma readonly_service_fields:
  "denied readonly_service = isSet"
  "contents readonly_service = contents service"
  by (simp_all add: readonly_service_def)

lemma naming_copy_fields:
  "actionMode (naming_copy_on service) = moveNewName"
  "actionSecret (naming_copy_on service) = Some db"
  "moveTargetVault (naming_copy_on service) = Some beta"
  "secretClient (naming_copy_on service) = Some ''https://alpha.vault.azure.net''"
  "secretCache (naming_copy_on service) ''db'' = Some (Some ''a-val'')"
  "currentVault (naming_copy_on service) = Some alpha"
  "remote (naming_copy_on service)
     = service\<lparr>calls := [ListCall ''https://alpha.vault.azure.net'',
                           GetCall ''https://alpha.vault.azure.net'' ''db'']\<rparr>"
  by (simp_all add: naming_copy_on_def view_db_on_def key_defs walk_defs sample_defs)

lemma sealed_fields:
  "actionMode (renaming_on sealed_service) = rename"
  "actionSecret (renaming_on sealed_service) = Some db"
  "secretClient (renaming_on sealed_service) = Some ''https://alpha.vault.azure.net''"
  "secretCache (renaming_on sealed_service) ''db'' = Some None"
  "currentVault (renaming_on sealed_service) = Some alpha"
  "denied (remote (renaming_on sealed_service)) = denied sealed_service"
  "actionMode (naming_copy_on sealed_service) = moveNewName"
  "actionSecret (naming_copy_on sealed_service) = Some db"
  "moveTargetVault (naming_copy_on sealed_service) = Some beta"
  "secretClient (naming_copy_on sealed_service) = Some ''https://alpha.vault.azure.net''"
  "secretCache (naming_copy_on sealed_service) ''db'' = Some None"
  "currentVault (naming_copy_on sealed_service) = Some alpha"
  "denied (remote (naming_copy_on sealed_service)) = denied sealed_service"
  by (simp_all add: renaming_on_def naming_copy_on_def view_db_on_def key_defs walk_defs
      sample_defs sealed_service_def)

lemma readonly_fields:
  "actionMode (editing_on readonly_service) = editValue"
  "actionSecret (editing_on readonly_service) = Some db"
  "secretClient (editing_on readonly_service) = Some ''https://alpha.vault.azure.net''"
  "denied (remote (editing_on readonly_service)) = isSet"
  "commandBar_visible (editing_on readonly_service) = True"
  "actionMode (renaming_on readonly_service) = rename"
  "actionSecret (renaming_on readonly_service) = Some db"
  "secretClient (renaming_on readonly_service) = Some ''https://alpha.vault.azure.net''"
  "denied (remote (renaming_on readonly_service)) = isSet"
  "commandBar_visible (renaming_on readonly_service) = True"
  "actionMode (naming_copy_on readonly_service) = moveNewName"
  "actionSecret (naming_copy_on readonly_service) = Some db"
  "moveTargetVault (naming_copy_on readonly_service) = Some beta"
  "secretClient (naming_copy_on readonly_service) = Some ''https://alpha.vault.azure.net''"
  "denied (remote (naming_copy_on readonly_service)) = isSet"
  "commandBar_visible (naming_copy_on readonly_service) = True"
  by (simp_all add: editing_on_def renaming_on_def naming_copy_on_def view_db_on_def
      key_defs walk_defs sample_defs readonly_service_def)

lemma creating_fields:
  "actionMode (creating_on readonly_service) = createValue"
  "createNewSecretName (creating_on readonly_service) = Some ''api-key''"
  "secretClient (creating_on readonly_service) = Some ''https://alpha.vault.azure.net''"
  "denied (remote (creating_on readonly_service)) = isSet"
  "commandBar_visible (creating_on readonly_service) = True"
  by (simp_all add: creating_on_def view_db_on_def commandBar_ENTER_def commandBar_branch_def
      submit_createName_def text_defs
      key_defs walk_defs sample_defs readonly_service_def)

lemma editing_fields:
  "actionMode (editing_on service) = editValue"
  "actionSecret (editing_on service) = Some db"
  "secretClient (editing_on service) = Some ''https://alpha.vault.azure.net''"
  "denied (remote (editing_on service)) = (\<lambda>c. False)"
  "exitCode (editing_on service) = None"
  by (simp_all add: editing_on_def view_db_on_def key_defs walk_defs sample_defs)

lemma prompt_fields:
  "actionMode (keypress '':'' (started [alpha, beta] service)) = none"
  "exitCode (keypress '':'' (started [alpha, beta] service)) = None"
  by (simp_all add: keypress_def openCommandBar_def started_def)

lemma orphaned_fields:
  "actionMode orphaned_naming = moveNewName" "actionSecret orphaned_naming = None"
  "exitCode orphaned_naming = None"
  "exitCode (snd (commandBar_ENTER ''q'' orphaned_naming)) = Some 0"
  by (simp_all add: orphaned_naming_def typing_target_def choosing_target_def viewed_db_def
      in_alpha_def commandBar_ENTER_def commandBar_branch_def submit_moveTarget_def
      submit_bare_def quitClean_def text_defs key_defs walk_defs sample_defs)

theorem move_copies_fetched_value_witness:
  "fst (commandBar_ENTER ''db-copy'' (naming_copy_on service)) = Resolved ()
   \<and> map_of (contents (remote (snd (commandBar_ENTER ''db-copy'' (naming_copy_on service))))
         ''https://beta.vault.azure.net'') ''db-copy'' = Some ''a-val''
   \<and> map_of (contents (remote (snd (commandBar_ENTER ''db-copy'' (naming_copy_on service))))
         ''https://alpha.vault.azure.net'') ''db'' = Some ''a-val''
   \<and> map_of (contents (remote (snd (commandBar_ENTER ''db-copy'' (naming_copy_on service))))
         ''https://beta.vault.azure.net'') ''db'' = Some ''b-val''
   \<and> filter isDelete (calls (remote (snd (commandBar_ENTER ''db-copy'' (naming_copy_on service)))))
       = []"
proof -
  have t: "trim ''db-copy'' = ''db-copy''"
    by (simp add: text_defs)
  have compl: "fst (commandBar_ENTER ''db-copy'' (naming_copy_on service)) = Resolved ()"
    by (simp add: ENTER_flow branch_moveNewName naming_copy_fields submit_moveNewName_def
        getSecretValue_def setSecret_cases reload_def selectVaultAndLoadSecrets_def
        listPropertiesOfSecrets_def record_call_def setLeftTitle_def focusList_def orEmpty_def
        service_fields t alpha_def beta_def db_def Let_def)
  have held: "map_of (contents (remote (naming_copy_on service)) ''https://alpha.vault.azure.net'')
                (secret_name db) = Some ''a-val''"
    by (simp add: naming_copy_fields service_fields db_def)
  have cached: "secretCache (naming_copy_on service) (secret_name db) = Some (Some ''a-val'')"
    by (simp add: naming_copy_fields db_def)
  have other: "map_of (contents (remote (naming_copy_on service)) ''https://beta.vault.azure.net'')
                ''db'' = Some ''b-val''"
    by (simp add: naming_copy_fields service_fields)
  have nodel: "filter isDelete (calls (remote (naming_copy_on service))) = []"
    by (simp add: naming_copy_fields)
  have ne: "''db-copy'' \<noteq> []" by simp
  note th = move_copies_fetched_value [OF naming_copy_fields(1,2,3) t ne compl,
      of "''https://alpha.vault.azure.net''" "''a-val''"]
  have 1: "map_of (contents (remote (snd (commandBar_ENTER ''db-copy'' (naming_copy_on service))))
         ''https://beta.vault.azure.net'') ''db'' = Some ''b-val''"
    using th [THEN conjunct1, rule_format, of "''https://beta.vault.azure.net''" "''db''"] other
    by simp
  have 2: "map_of (contents (remote (snd (commandBar_ENTER ''db-copy'' (naming_copy_on service))))
         (vaultUri beta)) ''db-copy'' = Some ''a-val''
      \<and> map_of (contents (remote (snd (commandBar_ENTER ''db-copy'' (naming_copy_on service))))
         ''https://alpha.vault.azure.net'') (secret_name db) = Some ''a-val''"
    using th naming_copy_fields(4) held cached by blast
  have 3: "filter isDelete (calls (remote (snd (commandBar_ENTER ''db-copy'' (naming_copy_on service)))))
      = filter isDelete (calls (remote (naming_copy_on service)))"
    using th by blast
  show ?thesis
    using compl 1 2 3 nodel by (simp add: beta_def db_def)
qed


lemma sealed_copy_store:
  "contents (remote (naming_copy_on sealed_service)) = contents service"
  by (simp add: naming_copy_on_def view_db_on_def key_defs walk_defs sample_defs
      sealed_service_def)

text \<open>
  C5, as stated, fails where the fetch of the source value has failed: the source vault
  holds \<open>db\<close> with value \<open>a-val\<close>, the get of it is rejected, the move completes, and
  the target vault receives the copy with the empty string as its value.
\<close>

theorem move_copies_empty_counterexample:
  "actionMode (naming_copy_on sealed_service) = moveNewName
   \<and> actionSecret (naming_copy_on sealed_service) = Some db
   \<and> moveTargetVault (naming_copy_on sealed_service) = Some beta
   \<and> map_of (contents (remote (naming_copy_on sealed_service))
         ''https://alpha.vault.azure.net'') ''db'' = Some ''a-val''
   \<and> fst (commandBar_ENTER ''db-copy'' (naming_copy_on sealed_service)) = Resolved ()
   \<and> map_of (contents (remote (snd (commandBar_ENTER ''db-copy'' (naming_copy_on sealed_service))))
         ''https://beta.vault.azure.net'') ''db-copy'' = Some []
   \<and> map_of (contents (remote (snd (commandBar_ENTER ''db-copy'' (naming_copy_on sealed_service))))
         ''https://beta.vault.azure.net'') ''db-copy'' \<noteq> Some ''a-val''"
proof -
  have t: "trim ''db-copy'' = ''db-copy''"
    by (simp add: text_defs)
  have n: "secretCache (naming_copy_on sealed_service) (secret_name db) = Some None"
    by (simp add: sealed_fields db_def)
  have r: "\<exists>cv. currentVault (naming_copy_on sealed_service) = Some cv
            \<and> \<not> denied (remote (naming_copy_on sealed_service)) (ListCall (vaultUri cv))"
    by (simp add: sealed_fields sealed_service_fields)
  have held: "map_of (contents (remote (naming_copy_on sealed_service))
         ''https://alpha.vault.azure.net'') ''db'' = Some ''a-val''"
    by (simp add: sealed_copy_store service_fields)
  show ?thesis
    using move_null [of "naming_copy_on sealed_service" db beta
        "''https://alpha.vault.azure.net''" "''db-copy''" "''db-copy''"]
      n r t held sealed_fields
    by (simp add: sealed_service_fields beta_def)
qed


section \<open>A failed fetch in rename and move\<close>

text \<open>
  C10. Let the cache hold \<^verbatim>\<open>null\<close> for the action secret (its fetch failed). A
  rename submitted with a new, non-empty name issues as its next service call the set
  of the new name with the empty string as value, and so does the move step on the
  target vault (under the typed name, or the secret's own name when the text is
  blank): the \<^verbatim>\<open>null\<close> does not stop either workflow. When that set is accepted the
  store holds the empty string under the name, and when the reload is accepted too the
  handler completes.
\<close>

theorem null_value_written_as_empty:
  assumes "secretClient st = Some uri" and "actionSecret st = Some s"
    and "secretCache st (secret_name s) = Some None"
  shows "(actionMode st = rename \<and> trim cmd \<noteq> [] \<and> trim cmd \<noteq> secret_name s \<longrightarrow>
      (\<exists>rest. calls (remote (snd (commandBar_ENTER cmd st)))
                = calls (remote st) @ SetCall uri (trim cmd) [] # rest)
      \<and> (\<not> denied (remote st) (SetCall uri (trim cmd) []) \<longrightarrow>
           map_of (contents (remote (snd (commandBar_ENTER cmd st))) uri) (trim cmd) = Some [])
      \<and> (\<not> denied (remote st) (SetCall uri (trim cmd) [])
          \<and> (\<exists>cv. currentVault st = Some cv \<and> \<not> denied (remote st) (ListCall (vaultUri cv))) \<longrightarrow>
           fst (commandBar_ENTER cmd st) = Resolved ()))
    \<and> (actionMode st = moveNewName \<and> moveTargetVault st = Some tv
        \<and> asName = (if trim cmd \<noteq> [] then trim cmd else secret_name s) \<longrightarrow>
      (\<exists>rest. calls (remote (snd (commandBar_ENTER cmd st)))
                = calls (remote st) @ SetCall (vaultUri tv) asName [] # rest)
      \<and> (\<not> denied (remote st) (SetCall (vaultUri tv) asName []) \<longrightarrow>
           map_of (contents (remote (snd (commandBar_ENTER cmd st))) (vaultUri tv)) asName = Some [])
      \<and> (\<not> denied (remote st) (SetCall (vaultUri tv) asName [])
          \<and> (\<exists>cv. currentVault st = Some cv \<and> \<not> denied (remote st) (ListCall (vaultUri cv))) \<longrightarrow>
           fst (commandBar_ENTER cmd st) = Resolved ()))"
  using rename_null [of st s uri cmd] move_null [of st s tv uri asName cmd] assms
  by blast

theorem null_value_written_as_empty_witness:
  "secretCache (renaming_on sealed_service) ''db'' = Some None
   \<and> fst (commandBar_ENTER ''db2'' (renaming_on sealed_service)) = Resolved ()
   \<and> map_of (contents (remote (snd (commandBar_ENTER ''db2'' (renaming_on sealed_service))))
        ''https://alpha.vault.azure.net'') ''db2'' = Some []
   \<and> secretCache (naming_copy_on sealed_service) ''db'' = Some None
   \<and> fst (commandBar_ENTER ''db-copy'' (naming_copy_on sealed_service)) = Resolved ()
   \<and> map_of (contents (remote (snd (commandBar_ENTER ''db-copy'' (naming_copy_on sealed_service))))
        ''https://beta.vault.azure.net'') ''db-copy'' = Some []"
proof -
  have t: "trim ''db2'' = ''db2''" "trim ''db-copy'' = ''db-copy''"
    by (simp_all add: text_defs)
  have n: "secretCache (renaming_on sealed_service) (secret_name db) = Some None"
    "secretCache (naming_copy_on sealed_service) (secret_name db) = Some None"
    by (simp_all add: sealed_fields db_def)
  have r: "(\<exists>cv. currentVault (renaming_on sealed_service) = Some cv
            \<and> \<not> denied (remote (renaming_on sealed_service)) (ListCall (vaultUri cv)))"
    "(\<exists>cv. currentVault (naming_copy_on sealed_service) = Some cv
            \<and> \<not> denied (remote (naming_copy_on sealed_service)) (ListCall (vaultUri cv)))"
    by (simp_all add: sealed_fields sealed_service_fields)
  show ?thesis
    using null_value_written_as_empty [of "renaming_on sealed_service"
        "''https://alpha.vault.azure.net''" db "''db2''" beta "''db2''"]
      null_value_written_as_empty [of "naming_copy_on sealed_service"
        "''https://alpha.vault.azure.net''" db "''db-copy''" beta "''db-copy''"]
      n r t sealed_fields
    by (simp add: sealed_service_fields service_fields db_def beta_def)
qed

lemma rename_delete_swallowed:
  assumes "actionMode st = rename" "actionSecret st = Some s" "secretClient st = Some uri"
    "trim cmd \<noteq> []" "trim cmd \<noteq> secret_name s"
    "\<forall>v. \<not> denied (remote st) (SetCall uri (trim cmd) v)"
    "denied (remote st) (DeleteCall uri (secret_name s))"
    "currentVault st = Some cv" "\<not> denied (remote st) (ListCall (vaultUri cv))"
  shows "fst (commandBar_ENTER cmd st) = Resolved ()
    \<and> actionMode (snd (commandBar_ENTER cmd st)) = none
    \<and> actionSecret (snd (commandBar_ENTER cmd st)) = None
    \<and> details_text (snd (commandBar_ENTER cmd st))
        = Plain ''Select a secret to view details. Press Enter on a secret to load its value.''
    \<and> map_of (contents (remote (snd (commandBar_ENTER cmd st))) uri) (secret_name s)
        = map_of (contents (remote st) uri) (secret_name s)"
proof -
  obtain v st1 where g: "getSecretValue s st = (v, st1)" by (cases "getSecretValue s st")
  have k: "secretClient st1 = Some uri" "denied (remote st1) = denied (remote st)"
    "contents (remote st1) = contents (remote st)" "currentVault st1 = Some cv"
    using getSecretValue_client [of s st] getSecretValue_keeps [of s st] g assms by simp_all
  define r where "r = (record_call (SetCall uri (trim cmd) (orEmpty v)) (remote st1))
        \<lparr>contents := (contents (remote st1))
           (uri := AList.update (trim cmd) (orEmpty v) (contents (remote st1) uri))\<rparr>"
  define st2 where "st2 = st1\<lparr>remote := snd (beginDeleteSecret uri (secret_name s) r),
        details_text := Plain (''Renamed to '' @ trim cmd @ ''.'')\<rparr>"
  have br: "commandBar_branch cmd st = reload st2"
    using assms g k
    by (simp add: branch_rename submit_rename_def setSecret_cases Let_def r_def st2_def)
  have del: "snd (beginDeleteSecret uri (secret_name s) r)
      = record_call (DeleteCall uri (secret_name s)) r"
    using assms(7) k(2) by (simp add: beginDeleteSecret_def Let_def r_def remote_call_frames)
  have r2: "remote st2 = record_call (DeleteCall uri (secret_name s)) r"
    and cv2: "currentVault st2 = Some cv"
    using k(4) by (simp_all add: st2_def del)
  have d2: "\<not> denied (remote st2) (ListCall (vaultUri cv))"
    using assms(9) k(2) by (simp add: r2 r_def remote_call_frames)
  have ft: "fst (reload st2) = FallThrough"
    using cv2 d2 by (rule reload_resolves)
  have dt: "details_text (snd (reload st2))
        = Plain ''Select a secret to view details. Press Enter on a secret to load its value.''"
    using cv2 d2
    by (simp add: reload_def selectVaultAndLoadSecrets_def listPropertiesOfSecrets_def
        setLeftTitle_def focusList_def list_setSelectedIndex_def setListOptionsFromSecrets_def
        list_setOptions_def Let_def)
  have ct: "map_of (contents (remote (snd (reload st2))) uri) (secret_name s)
        = map_of (contents (remote st) uri) (secret_name s)"
    using assms(5) k(3)
    by (simp add: reload_frames r2 r_def remote_call_frames update_conv')
  show ?thesis
    using ft dt ct by (simp add: ENTER_flow br closeCommandBar_fields)
qed

section \<open>A rejected set in the submit handler\<close>

text \<open>
  C2, as the code behaves. With a client open and the service rejecting every set:
  in \<open>editValue\<close> and \<open>createValue\<close> the handler ends rejected with nothing changed
  but the call log; in \<open>rename\<close> (new, non-empty name) and \<open>moveNewName\<close> it ends
  rejected with the mode, the action secret, the detail text and the prompt's
  visibility as they were. So the rejection leaves the handler uncaught, nothing is
  written to the detail pane, and the mode is not reset. Only the delete of the old
  name in \<open>rename\<close> is caught: when the sets are accepted and that delete is rejected,
  the handler completes, the mode is reset, the detail pane shows the list hint, and
  the old name is still in the vault.
\<close>

theorem set_failure_escapes_handler:
  assumes "secretClient st = Some uri"
  shows "((\<forall>u n v. denied (remote st) (SetCall u n v)) \<longrightarrow>
      (actionMode st = editValue \<and> actionSecret st = Some s \<longrightarrow>
         commandBar_ENTER cmd st
           = (Rejected ServiceError,
              st\<lparr>remote := record_call (SetCall uri (secret_name s) cmd) (remote st)\<rparr>))
      \<and> (actionMode st = rename \<and> actionSecret st = Some s
          \<and> trim cmd \<noteq> [] \<and> trim cmd \<noteq> secret_name s \<longrightarrow>
         fst (commandBar_ENTER cmd st) = Rejected ServiceError
         \<and> actionMode (snd (commandBar_ENTER cmd st)) = rename
         \<and> actionSecret (snd (commandBar_ENTER cmd st)) = Some s
         \<and> details_text (snd (commandBar_ENTER cmd st)) = details_text st
         \<and> commandBar_visible (snd (commandBar_ENTER cmd st)) = commandBar_visible st)
      \<and> (actionMode st = moveNewName \<and> actionSecret st = Some s
          \<and> moveTargetVault st = Some tv \<longrightarrow>
         fst (commandBar_ENTER cmd st) = Rejected ServiceError
         \<and> actionMode (snd (commandBar_ENTER cmd st)) = moveNewName
         \<and> actionSecret (snd (commandBar_ENTER cmd st)) = Some s
         \<and> details_text (snd (commandBar_ENTER cmd st)) = details_text st
         \<and> commandBar_visible (snd (commandBar_ENTER cmd st)) = commandBar_visible st)
      \<and> (actionMode st = createValue \<and> createNewSecretName st = Some n \<and> n \<noteq> [] \<longrightarrow>
         commandBar_ENTER cmd st
           = (Rejected ServiceError,
              st\<lparr>remote := record_call (SetCall uri n cmd) (remote st)\<rparr>)))
    \<and> ((\<forall>u n v. \<not> denied (remote st) (SetCall u n v))
        \<and> denied (remote st) (DeleteCall uri (secret_name s))
        \<and> actionMode st = rename \<and> actionSecret st = Some s
        \<and> trim cmd \<noteq> [] \<and> trim cmd \<noteq> secret_name s
        \<and> currentVault st = Some cv \<and> \<not> denied (remote st) (ListCall (vaultUri cv)) \<longrightarrow>
      fst (commandBar_ENTER cmd st) = Resolved ()
      \<and> actionMode (snd (commandBar_ENTER cmd st)) = none
      \<and> actionSecret (snd (commandBar_ENTER cmd st)) = None
      \<and> details_text (snd (commandBar_ENTER cmd st))
          = Plain ''Select a secret to view details. Press Enter on a secret to load its value.''
      \<and> map_of (contents (remote (snd (commandBar_ENTER cmd st))) uri) (secret_name s)
          = map_of (contents (remote st) uri) (secret_name s))"
proof -
  have 1: "commandBar_ENTER cmd st
           = (Rejected ServiceError,
              st\<lparr>remote := record_call (SetCall uri (secret_name s) cmd) (remote st)\<rparr>)"
    if "\<forall>u n v. denied (remote st) (SetCall u n v)" "actionMode st = editValue"
      "actionSecret st = Some s"
    using that assms by (intro edit_set_rejected) simp_all
  have 2: "fst (commandBar_ENTER cmd st) = Rejected ServiceError
         \<and> actionMode (snd (commandBar_ENTER cmd st)) = rename
         \<and> actionSecret (snd (commandBar_ENTER cmd st)) = Some s
         \<and> details_text (snd (commandBar_ENTER cmd st)) = details_text st
         \<and> commandBar_visible (snd (commandBar_ENTER cmd st)) = commandBar_visible st"
    if "\<forall>u n v. denied (remote st) (SetCall u n v)" "actionMode st = rename"
      "actionSecret st = Some s" "trim cmd \<noteq> []" "trim cmd \<noteq> secret_name s"
    using that assms by (intro rename_set_rejected) simp_all
  have 3: "fst (commandBar_ENTER cmd st) = Rejected ServiceError
         \<and> actionMode (snd (commandBar_ENTER cmd st)) = moveNewName
         \<and> actionSecret (snd (commandBar_ENTER cmd st)) = Some s
         \<and> details_text (snd (commandBar_ENTER cmd st)) = details_text st
         \<and> commandBar_visible (snd (commandBar_ENTER cmd st)) = commandBar_visible st"
    if "\<forall>u n v. denied (remote st) (SetCall u n v)" "actionMode st = moveNewName"
      "actionSecret st = Some s" "moveTargetVault st = Some tv"
    using that by (intro move_set_rejected [of st s tv]) simp_all
  have 4: "commandBar_ENTER cmd st
           = (Rejected ServiceError,
              st\<lparr>remote := record_call (SetCall uri n cmd) (remote st)\<rparr>)"
    if "\<forall>u n v. denied (remote st) (SetCall u n v)" "actionMode st = createValue"
      "createNewSecretName st = Some n" "n \<noteq> []"
    using that assms by (intro create_set_rejected) simp_all
  have 5: "fst (commandBar_ENTER cmd st) = Resolved ()
      \<and> actionMode (snd (commandBar_ENTER cmd st)) = none
      \<and> actionSecret (snd (commandBar_ENTER cmd st)) = None
      \<and> details_text (snd (commandBar_ENTER cmd st))
          = Plain ''Select a secret to view details. Press Enter on a secret to load its value.''
      \<and> map_of (contents (remote (snd (commandBar_ENTER cmd st))) uri) (secret_name s)
          = map_of (contents (remote st) uri) (secret_name s)"
    if "\<forall>u n v. \<not> denied (remote st) (SetCall u n v)"
      "denied (remote st) (DeleteCall uri (secret_name s))"
      "actionMode st = rename" "actionSecret st = Some s"
      "trim cmd \<noteq> []" "trim cmd \<noteq> secret_name s"
      "currentVault st = Some cv" "\<not> denied (remote st) (ListCall (vaultUri cv))"
    using that assms by (intro rename_delete_swallowed [of st s uri cmd cv]) simp_all
  show ?thesis
    using 1 2 3 4 5 by blast
qed

theorem set_failure_escapes_handler_witness:
  "fst (commandBar_ENTER ''new'' (editing_on readonly_service)) = Rejected ServiceError
   \<and> actionMode (snd (commandBar_ENTER ''new'' (editing_on readonly_service))) = editValue
   \<and> actionSecret (snd (commandBar_ENTER ''new'' (editing_on readonly_service))) = Some db
   \<and> details_text (snd (commandBar_ENTER ''new'' (editing_on readonly_service)))
       = details_text (editing_on readonly_service)
   \<and> commandBar_visible (snd (commandBar_ENTER ''new'' (editing_on readonly_service)))
   \<and> fst (commandBar_ENTER ''db2'' (renaming_on readonly_service)) = Rejected ServiceError
   \<and> actionMode (snd (commandBar_ENTER ''db2'' (renaming_on readonly_service))) = rename
   \<and> fst (commandBar_ENTER ''db-copy'' (naming_copy_on readonly_service)) = Rejected ServiceError
   \<and> actionMode (snd (commandBar_ENTER ''db-copy'' (naming_copy_on readonly_service))) = moveNewName
   \<and> fst (commandBar_ENTER ''s3cret'' (creating_on readonly_service)) = Rejected ServiceError
   \<and> actionMode (snd (commandBar_ENTER ''s3cret'' (creating_on readonly_service))) = createValue
   \<and> createNewSecretName (snd (commandBar_ENTER ''s3cret'' (creating_on readonly_service)))
       = Some ''api-key''"
proof -
  have t: "trim ''db2'' = ''db2''" by (simp add: text_defs)
  have d: "\<forall>u n v. isSet (SetCall u n v)" by simp
  show ?thesis
    using set_failure_escapes_handler [of "editing_on readonly_service"
        "''https://alpha.vault.azure.net''" db "''new''" beta "''api-key''" alpha]
      set_failure_escapes_handler [of "renaming_on readonly_service"
        "''https://alpha.vault.azure.net''" db "''db2''" beta "''api-key''" alpha]
      set_failure_escapes_handler [of "naming_copy_on readonly_service"
        "''https://alpha.vault.azure.net''" db "''db-copy''" beta "''api-key''" alpha]
      set_failure_escapes_handler [of "creating_on readonly_service"
        "''https://alpha.vault.azure.net''" db "''s3cret''" beta "''api-key''" alpha]
      readonly_fields creating_fields t d
    by (simp add: db_def)
qed

section \<open>The quit command\<close>

lemma typed_naming_fields:
  "actionMode typed_naming = moveNewName" "actionSecret typed_naming = Some db"
  "moveTargetVault typed_naming = Some beta"
  "secretClient typed_naming = Some ''https://alpha.vault.azure.net''"
  "secretCache typed_naming ''db'' = Some (Some ''a-val'')"
  "currentVault typed_naming = Some alpha"
  "exitCode typed_naming = None"
  "remote typed_naming
     = service\<lparr>calls := [ListCall ''https://alpha.vault.azure.net'',
                           GetCall ''https://alpha.vault.azure.net'' ''db'']\<rparr>"
  by (simp_all add: typed_naming_def typing_target_def choosing_target_def viewed_db_def
      in_alpha_def commandBar_ENTER_def commandBar_branch_def submit_moveTarget_def
      text_defs key_defs walk_defs sample_defs)

lemma typed_naming_q:
  "exitCode (snd (commandBar_ENTER ''q'' typed_naming)) = None"
  "map_of (contents (remote (snd (commandBar_ENTER ''q'' typed_naming)))
     ''https://beta.vault.azure.net'') ''q'' = Some ''a-val''"
proof -
  have g: "modeGuard typed_naming"
    by (simp add: modeGuard_def typed_naming_fields)
  show "exitCode (snd (commandBar_ENTER ''q'' typed_naming)) = None"
    using guarded_ENTER_exit [OF g, of "''q''"] by (simp add: typed_naming_fields)
  have t: "trim ''q'' = ''q''" by (simp add: text_defs)
  show "map_of (contents (remote (snd (commandBar_ENTER ''q'' typed_naming)))
     ''https://beta.vault.azure.net'') ''q'' = Some ''a-val''"
    by (simp add: ENTER_flow branch_moveNewName typed_naming_fields submit_moveNewName_def
        getSecretValue_def setSecret_cases reload_def selectVaultAndLoadSecrets_def
        listPropertiesOfSecrets_def record_call_def setLeftTitle_def focusList_def orEmpty_def
        list_setSelectedIndex_def setListOptionsFromSecrets_def list_setOptions_def
        closeCommandBar_fields service_fields t alpha_def beta_def db_def Let_def)
qed

lemma orphaned_more:
  "moveSourceSecret orphaned_naming = Some db" "moveTargetVault orphaned_naming = Some beta"
  "commandBar_visible orphaned_naming"
  "commandBar_title orphaned_naming = ''Move '' @ bullet @ '' New name for db @ beta''"
  "state orphaned_naming = moveSelectTarget"
  by (simp_all add: orphaned_naming_def typing_target_def choosing_target_def viewed_db_def
      in_alpha_def commandBar_ENTER_def commandBar_branch_def submit_moveTarget_def
      text_defs key_defs walk_defs sample_defs)

text \<open>
  C8, as the code behaves. After an unmatched vault name in \<open>moveTarget\<close> the common
  reset has cleared the action secret; a vault chosen from the list then enters
  \<open>moveNewName\<close> with the prompt open under the move's title and the source secret and
  target vault held, but without the action secret. The text \<open>q\<close> submitted there is
  not taken as the copy's name: it reaches the bare command and schedules the exit
  with code 0. On the other way into \<open>moveNewName\<close>, the vault's name typed into the
  prompt, the same text is taken as the name: the copy is written and nothing exits.
\<close>

theorem quit_from_orphaned_moveNewName:
  "actionMode orphaned_naming = moveNewName \<and> actionSecret orphaned_naming = None
   \<and> moveSourceSecret orphaned_naming = Some db \<and> moveTargetVault orphaned_naming = Some beta
   \<and> state orphaned_naming = moveSelectTarget \<and> commandBar_visible orphaned_naming
   \<and> commandBar_title orphaned_naming = ''Move '' @ bullet @ '' New name for db @ beta''
   \<and> exitCode orphaned_naming = None
   \<and> exitCode (snd (commandBar_ENTER ''q'' orphaned_naming)) = Some 0
   \<and> actionMode typed_naming = moveNewName \<and> actionSecret typed_naming = Some db
   \<and> exitCode (snd (commandBar_ENTER ''q'' typed_naming)) = None
   \<and> map_of (contents (remote (snd (commandBar_ENTER ''q'' typed_naming)))
        ''https://beta.vault.azure.net'') ''q'' = Some ''a-val''"
  using orphaned_fields orphaned_more typed_naming_fields(1,2) typed_naming_q by simp

text \<open>
  Elsewhere the quit command is as the claim has it. With no action mode active (and
  no exit pending), the trimmed text \<open>q\<close> or \<open>quit\<close> completes the handler with exit
  code 0 scheduled. With an action mode active whose payload test holds
  (\<open>modeGuard\<close>), no submitted text changes the exit code; in \<open>editValue\<close> the text is
  written as the secret's value when the set is accepted. Any other text with no
  action mode active completes the handler with only the common reset applied: exit
  code, service and detail text are unchanged.
\<close>

theorem quit_only_as_bare_command:
  "(actionMode st = none \<and> exitCode st = None \<and> (trim cmd = ''q'' \<or> trim cmd = ''quit'') \<longrightarrow>
      fst (commandBar_ENTER cmd st) = Resolved ()
      \<and> exitCode (snd (commandBar_ENTER cmd st)) = Some 0)
   \<and> (modeGuard st \<longrightarrow> exitCode (snd (commandBar_ENTER cmd st)) = exitCode st)
   \<and> (actionMode st = editValue \<and> actionSecret st = Some s \<and> secretClient st = Some uri
       \<and> \<not> denied (remote st) (SetCall uri (secret_name s) cmd) \<longrightarrow>
      map_of (contents (remote (snd (commandBar_ENTER cmd st))) uri) (secret_name s) = Some cmd)
   \<and> (actionMode st = none \<and> trim cmd \<noteq> ''q'' \<and> trim cmd \<noteq> ''quit'' \<longrightarrow>
      commandBar_ENTER cmd st
        = (Resolved (), closeCommandBar (st\<lparr>actionMode := none, actionSecret := None\<rparr>))
      \<and> exitCode (snd (commandBar_ENTER cmd st)) = exitCode st
      \<and> remote (snd (commandBar_ENTER cmd st)) = remote st
      \<and> details_text (snd (commandBar_ENTER cmd st)) = details_text st)"
proof -
  have 1: "fst (commandBar_ENTER cmd st) = Resolved ()
      \<and> exitCode (snd (commandBar_ENTER cmd st)) = Some 0"
    if "actionMode st = none" "exitCode st = None" "trim cmd = ''q'' \<or> trim cmd = ''quit''"
    using bare_quit [OF that(1,3)] that(2)
    by (simp add: closeCommandBar_fields quitClean_def)
  have 2: "exitCode (snd (commandBar_ENTER cmd st)) = exitCode st" if "modeGuard st"
    using that by (rule guarded_ENTER_exit)
  have 3: "map_of (contents (remote (snd (commandBar_ENTER cmd st))) uri) (secret_name s) = Some cmd"
    if "actionMode st = editValue" "actionSecret st = Some s" "secretClient st = Some uri"
      "\<not> denied (remote st) (SetCall uri (secret_name s) cmd)"
    using that by (rule edit_consumes_text)
  have 4: "commandBar_ENTER cmd st
        = (Resolved (), closeCommandBar (st\<lparr>actionMode := none, actionSecret := None\<rparr>))
      \<and> exitCode (snd (commandBar_ENTER cmd st)) = exitCode st
      \<and> remote (snd (commandBar_ENTER cmd st)) = remote st
      \<and> details_text (snd (commandBar_ENTER cmd st)) = details_text st"
    if "actionMode st = none" "trim cmd \<noteq> ''q''" "trim cmd \<noteq> ''quit''"
    using bare_other [OF that] by (simp add: closeCommandBar_fields)
  show ?thesis
    using 1 2 3 4 by blast
qed

theorem quit_only_as_bare_command_witness:
  "actionMode (keypress '':'' (started [alpha, beta] service)) = none
   \<and> exitCode (snd (commandBar_ENTER '' q '' (keypress '':'' (started [alpha, beta] service)))) = Some 0
   \<and> exitCode (snd (commandBar_ENTER ''hello'' (keypress '':'' (started [alpha, beta] service)))) = None
   \<and> fst (commandBar_ENTER ''hello'' (keypress '':'' (started [alpha, beta] service))) = Resolved ()
   \<and> modeGuard (editing_on service)
   \<and> exitCode (snd (commandBar_ENTER ''q'' (editing_on service))) = None
   \<and> map_of (contents (remote (snd (commandBar_ENTER ''q'' (editing_on service))))
        ''https://alpha.vault.azure.net'') ''db'' = Some ''q''"
proof -
  have t: "trim '' q '' = ''q''" "trim ''hello'' = ''hello''"
    by (simp_all add: text_defs)
  have g: "modeGuard (editing_on service)"
    by (simp add: modeGuard_def editing_fields)
  show ?thesis
    using quit_only_as_bare_command [of "keypress '':'' (started [alpha, beta] service)" "'' q ''"
        db "''https://alpha.vault.azure.net''"]
      quit_only_as_bare_command [of "keypress '':'' (started [alpha, beta] service)" "''hello''"
        db "''https://alpha.vault.azure.net''"]
      quit_only_as_bare_command [of "editing_on service" "''q''"
        db "''https://alpha.vault.azure.net''"]
      prompt_fields editing_fields t g
    by (simp add: db_def closeCommandBar_fields)
qed

end
